theory Spec2Isabelle
  imports Complex_Main
begin

section \<open>Python values exchanged over the wire\<close>

text \<open>
  The agent SDK passes around what \<^verbatim>\<open>json.loads\<close> returns and what \<^verbatim>\<open>json.dumps\<close>
  accepts: \<^verbatim>\<open>None\<close>, booleans, numbers, strings, lists and dicts with string keys.
  A dict is an association list read with \<open>map_of\<close> (the first binding of a key counts);
  a string is the list of the bytes of its UTF-8 encoding, and \<open>code_points\<close> gives its
  characters, each as its bytes.
\<close>

datatype json =
    JNull
  | JBool bool
  | JInt int
  | JFloat real
  | JStr string
  | JArr "json list"
  | JObj "(string \<times> json) list"

text \<open>
  The characters of a string, which are what indexing, slicing, \<^verbatim>\<open>len\<close> and iteration
  count: a character starts at each byte that is not a continuation byte
  (\<^verbatim>\<open>10xxxxxx\<close>) and runs over the continuation bytes that follow it.
\<close>

definition is_continuation :: "char \<Rightarrow> bool" where
  "is_continuation c = (digit7 c \<and> \<not> digit6 c)"

fun code_points :: "string \<Rightarrow> string list" where
  "code_points [] = []"
| "code_points [c] = [[c]]"
| "code_points (c # d # cs) =
     (if is_continuation d then
        (case code_points (d # cs) of [] \<Rightarrow> [[c]] | w # ws \<Rightarrow> (c # w) # ws)
      else [c] # code_points (d # cs))"

text \<open>
  An exception is its class together with \<^verbatim>\<open>str(e)\<close>, the only thing the server reads
  from it. The messages of the errors the interpreter raises by itself (a missing
  attribute, a subscript on the wrong type) are CPython 3's.
\<close>

datatype exc_class =
    ValueError
  | KeyError
  | TypeError
  | AttributeError
  | IndexError
  | NotImplementedError
  | OtherException string

datatype py_error = Exc exc_class string

fun str_exc :: "py_error \<Rightarrow> string" where
  "str_exc (Exc c m) = m"

fun type_name :: "json \<Rightarrow> string" where
  "type_name JNull = ''NoneType''"
| "type_name (JBool b) = ''bool''"
| "type_name (JInt n) = ''int''"
| "type_name (JFloat r) = ''float''"
| "type_name (JStr s) = ''str''"
| "type_name (JArr xs) = ''list''"
| "type_name (JObj kvs) = ''dict''"

text \<open>Truth value of an object, as \<^verbatim>\<open>if not v\<close> tests it.\<close>

fun truthy :: "json \<Rightarrow> bool" where
  "truthy JNull = False"
| "truthy (JBool b) = b"
| "truthy (JInt n) = (n \<noteq> 0)"
| "truthy (JFloat r) = (r \<noteq> 0)"
| "truthy (JStr s) = (s \<noteq> [])"
| "truthy (JArr xs) = (xs \<noteq> [])"
| "truthy (JObj kvs) = (kvs \<noteq> [])"

definition quoted :: "string \<Rightarrow> string" where
  "quoted s = CHR 0x27 # s @ [CHR 0x27]"

definition not_subscriptable :: "json \<Rightarrow> py_error" where
  "not_subscriptable v = Exc TypeError (quoted (type_name v) @ '' object is not subscriptable'')"

text \<open>\<^verbatim>\<open>v.get(k, d)\<close>: only a dict has the method.\<close>

fun py_get :: "json \<Rightarrow> string \<Rightarrow> json \<Rightarrow> py_error + json" where
  "py_get (JObj kvs) k d = Inr (case map_of kvs k of None \<Rightarrow> d | Some v \<Rightarrow> v)"
| "py_get v k d =
     Inl (Exc AttributeError
       (quoted (type_name v) @ '' object has no attribute '' @ quoted ''get''))"

text \<open>
  \<^verbatim>\<open>v[k]\<close> for a string key \<open>k\<close>. The keys the SDK subscripts with are the constants
  \<^verbatim>\<open>"validMoves"\<close>, \<^verbatim>\<open>"from"\<close> and \<^verbatim>\<open>"to"\<close>, whose \<^verbatim>\<open>repr\<close> is the key in single quotes.
\<close>

fun py_getitem :: "json \<Rightarrow> string \<Rightarrow> py_error + json" where
  "py_getitem (JObj kvs) k =
     (case map_of kvs k of None \<Rightarrow> Inl (Exc KeyError (quoted k)) | Some v \<Rightarrow> Inr v)"
| "py_getitem (JStr s) k =
     Inl (Exc TypeError (''string indices must be integers, not '' @ quoted ''str''))"
| "py_getitem (JArr xs) k =
     Inl (Exc TypeError ''list indices must be integers or slices, not str'')"
| "py_getitem v k = Inl (not_subscriptable v)"

text \<open>\<^verbatim>\<open>v[0]\<close>. A dict from JSON has string keys only, so the key \<open>0\<close> is never there.\<close>

fun py_getitem0 :: "json \<Rightarrow> py_error + json" where
  "py_getitem0 (JArr []) = Inl (Exc IndexError ''list index out of range'')"
| "py_getitem0 (JArr (x # xs)) = Inr x"
| "py_getitem0 (JStr s) =
     (case code_points s of
        [] \<Rightarrow> Inl (Exc IndexError ''string index out of range'')
      | c # cs \<Rightarrow> Inr (JStr c))"
| "py_getitem0 (JObj kvs) = Inl (Exc KeyError ''0'')"
| "py_getitem0 v = Inl (not_subscriptable v)"

section \<open>agent.py: MoveResponse and the agent classes\<close>

record MoveResponse =
  action :: json
  trash_talk :: "string option"

text \<open>\<^verbatim>\<open>MoveResponse.to_dict\<close>: \<^verbatim>\<open>if self.trash_talk\<close> is false for \<^verbatim>\<open>None\<close> and for \<^verbatim>\<open>""\<close>.\<close>

definition to_dict :: "MoveResponse \<Rightarrow> json" where
  "to_dict r =
     (case trash_talk r of
        None \<Rightarrow> JObj [(''action'', action r)]
      | Some t \<Rightarrow>
          if t \<noteq> [] then JObj [(''action'', action r), (''trashTalk'', JStr t)]
          else JObj [(''action'', action r)])"

text \<open>\<^verbatim>\<open>ChessAgent.make_move\<close>, the default implementation: the first valid move.\<close>

definition ChessAgent_make_move :: "json \<Rightarrow> py_error + json" where
  "ChessAgent_make_move game_state =
     (case py_get game_state ''validMoves'' JNull of
        Inl e \<Rightarrow> Inl e
      | Inr vm \<Rightarrow>
          if \<not> truthy vm then Inl (Exc ValueError ''No valid moves available'')
          else
            (case py_getitem game_state ''validMoves'' of
               Inl e \<Rightarrow> Inl e
             | Inr vms \<Rightarrow>
            (case py_getitem0 vms of
               Inl e \<Rightarrow> Inl e
             | Inr move \<Rightarrow>
            (case py_getitem move ''from'' of
               Inl e \<Rightarrow> Inl e
             | Inr f \<Rightarrow>
            (case py_getitem move ''to'' of
               Inl e \<Rightarrow> Inl e
             | Inr t \<Rightarrow>
            (case py_get move ''promotion'' JNull of
               Inl e \<Rightarrow> Inl e
             | Inr p \<Rightarrow>
                 Inr (JObj [(''action'',
                        JObj [(''from'', f), (''to'', t), (''promotion'', p)])])))))))"

definition TriviaAgent_make_move :: "json \<Rightarrow> py_error + json" where
  "TriviaAgent_make_move game_state =
     Inl (Exc NotImplementedError ''Trivia agent not yet implemented'')"

definition DebateAgent_make_move :: "json \<Rightarrow> py_error + json" where
  "DebateAgent_make_move game_state =
     Inl (Exc NotImplementedError ''Debate agent not yet implemented'')"

section \<open>The random module\<close>

text \<open>
  \<^verbatim>\<open>random.choice(seq)\<close> returns \<^verbatim>\<open>seq[i]\<close> for an index \<open>i\<close> drawn below
  \<^verbatim>\<open>len(seq)\<close>. The generator is the sequence of its future draws: a call reads the
  first draw, reduced below the length, and leaves the rest. Every index below the length
  is the outcome of some draw, so a statement for all generators covers every choice the
  module can make; how probable each choice is lies outside this model.
\<close>

type_synonym rng = "nat \<Rightarrow> nat"

definition const_rng :: "nat \<Rightarrow> rng" where
  "const_rng d = (\<lambda>i. d)"

definition next_rng :: "rng \<Rightarrow> rng" where
  "next_rng g = (\<lambda>i. g (Suc i))"

definition digit_char :: "nat \<Rightarrow> char" where
  "digit_char d = char_of (48 + d)"

fun show_nat :: "nat \<Rightarrow> string" where
  "show_nat n = (if n < 10 then [digit_char n] else show_nat (n div 10) @ [digit_char (n mod 10)])"

declare show_nat.simps [simp del]

fun py_random_choice :: "json \<Rightarrow> rng \<Rightarrow> (py_error + json) \<times> rng" where
  "py_random_choice (JArr xs) g =
     (if xs = [] then (Inl (Exc IndexError ''Cannot choose from an empty sequence''), g)
      else (Inr (xs ! (g 0 mod length xs)), next_rng g))"
| "py_random_choice (JStr s) g =
     (if code_points s = []
      then (Inl (Exc IndexError ''Cannot choose from an empty sequence''), g)
      else (Inr (JStr (code_points s ! (g 0 mod length (code_points s)))), next_rng g))"
| "py_random_choice (JObj kvs) g =
     (if kvs = [] then (Inl (Exc IndexError ''Cannot choose from an empty sequence''), g)
      else (Inl (Exc KeyError (show_nat (g 0 mod length kvs))), next_rng g))"
| "py_random_choice v g =
     (Inl (Exc TypeError (''object of type '' @ quoted (type_name v) @ '' has no len()'')), g)"

section \<open>Iteration and membership\<close>

text \<open>\<^verbatim>\<open>for m in v\<close>: the elements of a list, the characters of a string, the keys of a dict.\<close>

fun py_iter :: "json \<Rightarrow> py_error + json list" where
  "py_iter (JArr xs) = Inr xs"
| "py_iter (JStr s) = Inr (map JStr (code_points s))"
| "py_iter (JObj kvs) = Inr (map (\<lambda>kv. JStr (fst kv)) kvs)"
| "py_iter v = Inl (Exc TypeError (quoted (type_name v) @ '' object is not iterable''))"

text \<open>
  \<^verbatim>\<open>c in v\<close> for a one-character string \<open>c\<close> of ASCII, as the three the bot looks for
  are: such a byte is in the bytes of a string exactly when the character is in it.
\<close>

fun py_contains :: "char \<Rightarrow> json \<Rightarrow> py_error + bool" where
  "py_contains c (JStr s) = Inr (c \<in> set s)"
| "py_contains c (JArr xs) = Inr (JStr [c] \<in> set xs)"
| "py_contains c (JObj kvs) = Inr (map_of kvs [c] \<noteq> None)"
| "py_contains c v =
     Inl (Exc TypeError (''argument of type '' @ quoted (type_name v) @ '' is not iterable''))"

text \<open>
  A list comprehension \<^verbatim>\<open>[m for m in ms if p(m)]\<close> whose condition may raise: the first
  element on which it raises ends the comprehension.
\<close>

fun filter_e :: "('a \<Rightarrow> py_error + bool) \<Rightarrow> 'a list \<Rightarrow> py_error + 'a list" where
  "filter_e p [] = Inr []"
| "filter_e p (x # xs) =
     (case p x of
        Inl e \<Rightarrow> Inl e
      | Inr b \<Rightarrow>
          (case filter_e p xs of
             Inl e \<Rightarrow> Inl e
           | Inr ys \<Rightarrow> Inr (if b then x # ys else ys)))"

section \<open>Agent objects\<close>

text \<open>
  Methods keep their names, without the leading underscore of the private ones and with
  the class in front where two classes define the same method.

  An agent object is its class and its attributes. The attributes of the example bots
  (\<open>move_count\<close>, the trash talk lists, \<open>depth\<close>) are fields of every object and are
  read only by the class that declares them. Two parts of the environment travel with
  the object: \<open>rng\<close>, the draws the random module will hand to this agent, and
  \<open>engine\<close>, what starting the Stockfish program at \<^verbatim>\<open>stockfish_path\<close> and sending it
  the commands for a position and a depth comes to: an exception (the program is
  missing, \<^verbatim>\<open>communicate\<close> times out) or the text of its standard output.
  What the methods print is not modelled.
\<close>

datatype agent_class = ChessAgent | TriviaAgent | DebateAgent | SimpleChessBot | StockfishBot

record agent_obj =
  cls :: agent_class
  name :: string
  description :: string
  move_count :: int
  trash_talk_lines :: "json list"
  winning_trash_talk :: "json list"
  depth :: int
  rng :: rng
  engine :: "json \<Rightarrow> int \<Rightarrow> py_error + string"

definition game_type :: "agent_obj \<Rightarrow> string" where
  "game_type self =
     (case cls self of
        TriviaAgent \<Rightarrow> ''trivia''
      | DebateAgent \<Rightarrow> ''debate''
      | _ \<Rightarrow> ''chess'')"

text \<open>One \<^verbatim>\<open>random.choice\<close> made by a method of the agent.\<close>

definition choice :: "agent_obj \<Rightarrow> json \<Rightarrow> (py_error + json) \<times> agent_obj" where
  "choice self seq = (case py_random_choice seq (rng self) of (r, g) \<Rightarrow> (r, self\<lparr>rng := g\<rparr>))"

section \<open>examples/simple\_chess\_bot.py\<close>

text \<open>The lobster emoji of two of the trash talk lines.\<close>

definition emoji :: string where
  "emoji = [CHR 0xF0, CHR 0x9F, CHR 0xA6, CHR 0x9E]"

definition SimpleChessBot_init :: "rng \<Rightarrow> agent_obj" where
  "SimpleChessBot_init g =
     \<lparr>cls = SimpleChessBot, name = ''Simple Bot'',
      description = ''A basic chess bot for testing'',
      move_count = 0,
      trash_talk_lines =
        [JStr (emoji @ '' Claws out!''),
         JStr ''Is that really your best move?'',
         JStr ''My circuits are barely warming up.'',
         JStr ''Interesting choice... for a hatchling.'',
         JStr (''You'' @ [CHR 0x27] @ ''re making this too easy.''),
         JStr (''Into the Pit with you! '' @ emoji),
         JNull,
         JNull],
      winning_trash_talk = [], depth = 0, rng = g,
      engine = (\<lambda>fen d. Inl (Exc (OtherException ''FileNotFoundError'') []))\<rparr>"

definition san_contains :: "char \<Rightarrow> json \<Rightarrow> py_error + bool" where
  "san_contains c m =
     (case py_get m ''san'' (JStr []) of Inl e \<Rightarrow> Inl e | Inr san \<Rightarrow> py_contains c san)"

definition is_capture :: "json \<Rightarrow> py_error + bool" where
  "is_capture m = san_contains CHR ''x'' m"

definition is_check :: "json \<Rightarrow> py_error + bool" where
  "is_check m =
     (case san_contains CHR ''+'' m of
        Inl e \<Rightarrow> Inl e
      | Inr b \<Rightarrow> if b then Inr True else san_contains CHR ''#'' m)"

definition center_squares :: "json list" where
  "center_squares = [JStr ''e4'', JStr ''d4'', JStr ''e5'', JStr ''d5'', JStr ''c4'', JStr ''f4'']"

definition is_center :: "json \<Rightarrow> py_error + bool" where
  "is_center m =
     (case py_getitem m ''to'' of Inl e \<Rightarrow> Inl e | Inr t \<Rightarrow> Inr (t \<in> set center_squares))"

text \<open>\<^verbatim>\<open>SimpleChessBot._select_move\<close>\<close>

definition select_move :: "agent_obj \<Rightarrow> json \<Rightarrow> json \<Rightarrow> (py_error + json) \<times> agent_obj" where
  "select_move self moves game_state =
     (case py_iter moves of
        Inl e \<Rightarrow> (Inl e, self)
      | Inr ms \<Rightarrow>
     (case filter_e is_capture ms of
        Inl e \<Rightarrow> (Inl e, self)
      | Inr captures \<Rightarrow>
          if captures \<noteq> [] then choice self (JArr captures)
          else
     (case filter_e is_check ms of
        Inl e \<Rightarrow> (Inl e, self)
      | Inr checks \<Rightarrow>
          if checks \<noteq> [] then choice self (JArr checks)
          else if move_count self < 10 then
            (case filter_e is_center ms of
               Inl e \<Rightarrow> (Inl e, self)
             | Inr center_moves \<Rightarrow>
                 if center_moves \<noteq> [] then choice self (JArr center_moves)
                 else choice self moves)
          else choice self moves)))"

text \<open>\<^verbatim>\<open>SimpleChessBot.make_move\<close>: the counter is incremented before anything can raise.\<close>

definition SimpleChessBot_make_move :: "agent_obj \<Rightarrow> json \<Rightarrow> (py_error + json) \<times> agent_obj" where
  "SimpleChessBot_make_move self0 game_state =
     (let self = self0\<lparr>move_count := move_count self0 + 1\<rparr> in
      case py_get game_state ''validMoves'' (JArr []) of
        Inl e \<Rightarrow> (Inl e, self)
      | Inr valid_moves \<Rightarrow>
          if \<not> truthy valid_moves then (Inl (Exc ValueError ''No valid moves!''), self)
          else
      (case select_move self valid_moves game_state of
        (Inl e, self1) \<Rightarrow> (Inl e, self1)
      | (Inr best_move, self1) \<Rightarrow>
      (case choice self1 (JArr (trash_talk_lines self1)) of
        (Inl e, self2) \<Rightarrow> (Inl e, self2)
      | (Inr trash, self2) \<Rightarrow>
      (case py_getitem best_move ''from'' of
        Inl e \<Rightarrow> (Inl e, self2)
      | Inr f \<Rightarrow>
      (case py_getitem best_move ''to'' of
        Inl e \<Rightarrow> (Inl e, self2)
      | Inr t \<Rightarrow>
      (case py_get best_move ''promotion'' JNull of
        Inl e \<Rightarrow> (Inl e, self2)
      | Inr p \<Rightarrow>
          (Inr (JObj [(''action'', JObj [(''from'', f), (''to'', t), (''promotion'', p)]),
                      (''trashTalk'', trash)]), self2)))))))"

text \<open>\<^verbatim>\<open>SimpleChessBot.on_game_start\<close> resets the counter, then formats the colour.\<close>

definition SimpleChessBot_on_game_start :: "agent_obj \<Rightarrow> json \<Rightarrow> (py_error + unit) \<times> agent_obj" where
  "SimpleChessBot_on_game_start self0 game_state =
     (let self = self0\<lparr>move_count := 0\<rparr> in
      case py_get game_state ''yourColor'' (JStr ''unknown'') of
        Inl e \<Rightarrow> (Inl e, self)
      | Inr colour \<Rightarrow> (Inr (), self))"

section \<open>examples/stockfish\_bot.py\<close>

text \<open>
  The four characters that stand in the source of this file where the other example has
  the lobster emoji.
\<close>

definition mojibake :: string where
  "mojibake = [CHR 0xC3, CHR 0xB0, CHR 0xC5, CHR 0xB8, CHR 0xC2, CHR 0xA6, CHR 0xC5, CHR 0xBE]"

definition StockfishBot_init :: "int \<Rightarrow> rng \<Rightarrow> (json \<Rightarrow> int \<Rightarrow> py_error + string) \<Rightarrow> agent_obj" where
  "StockfishBot_init d g eng =
     \<lparr>cls = StockfishBot, name = ''Stockfish Bot'',
      description = ''Powered by the Stockfish chess engine'',
      move_count = 0, trash_talk_lines = [],
      winning_trash_talk =
        [JStr (mojibake @ '' Calculated. Precise. Inevitable.''),
         JStr (''My evaluation says +3. Your evaluation says '' @ quoted ''hope'' @ ''.''),
         JStr (''Stockfish sees all. Into the Pit! '' @ mojibake)],
      depth = d, rng = g, engine = eng\<rparr>"

text \<open>\<^verbatim>\<open>s.split(c)\<close> for a one-character separator.\<close>

fun split_on :: "char \<Rightarrow> string \<Rightarrow> string list" where
  "split_on c [] = [[]]"
| "split_on c (x # xs) =
     (if x = c then [] # split_on c xs
      else (case split_on c xs of [] \<Rightarrow> [[x]] | w # ws \<Rightarrow> (x # w) # ws))"

text \<open>
  The characters \<^verbatim>\<open>str.split()\<close> takes for whitespace, those \<^verbatim>\<open>str.isspace\<close> holds of:
  U+0009 to U+000D, U+001C to U+001F, U+0020, U+0085, U+00A0, U+1680, U+2000 to U+200A,
  U+2028, U+2029, U+202F, U+205F and U+3000, each as the bytes of its UTF-8 encoding.
\<close>

definition whitespace :: "string list" where
  "whitespace =
     [[CHR 0x09], [CHR 0x0A], [CHR 0x0B], [CHR 0x0C], [CHR 0x0D],
      [CHR 0x1C], [CHR 0x1D], [CHR 0x1E], [CHR 0x1F], [CHR 0x20],
      [CHR 0xC2, CHR 0x85], [CHR 0xC2, CHR 0xA0], [CHR 0xE1, CHR 0x9A, CHR 0x80],
      [CHR 0xE2, CHR 0x80, CHR 0x80], [CHR 0xE2, CHR 0x80, CHR 0x81],
      [CHR 0xE2, CHR 0x80, CHR 0x82], [CHR 0xE2, CHR 0x80, CHR 0x83],
      [CHR 0xE2, CHR 0x80, CHR 0x84], [CHR 0xE2, CHR 0x80, CHR 0x85],
      [CHR 0xE2, CHR 0x80, CHR 0x86], [CHR 0xE2, CHR 0x80, CHR 0x87],
      [CHR 0xE2, CHR 0x80, CHR 0x88], [CHR 0xE2, CHR 0x80, CHR 0x89],
      [CHR 0xE2, CHR 0x80, CHR 0x8A], [CHR 0xE2, CHR 0x80, CHR 0xA8],
      [CHR 0xE2, CHR 0x80, CHR 0xA9], [CHR 0xE2, CHR 0x80, CHR 0xAF],
      [CHR 0xE2, CHR 0x81, CHR 0x9F], [CHR 0xE3, CHR 0x80, CHR 0x80]]"

definition is_space :: "string \<Rightarrow> bool" where
  "is_space ch = (ch \<in> set whitespace)"

text \<open>
  \<^verbatim>\<open>s.split()\<close> on the characters of \<open>s\<close>: the maximal runs of characters that are
  not whitespace; \<open>cur\<close> is the run being read.
\<close>

fun split_ws :: "string \<Rightarrow> string list \<Rightarrow> string list" where
  "split_ws cur [] = (if cur = [] then [] else [cur])"
| "split_ws cur (ch # chs) =
     (if is_space ch then (if cur = [] then split_ws [] chs else cur # split_ws [] chs)
      else split_ws (cur @ ch) chs)"

text \<open>
  The loop of \<^verbatim>\<open>_get_stockfish_move\<close> over the lines of the engine's output. The slices
  \<^verbatim>\<open>move_str[:2]\<close>, \<^verbatim>\<open>move_str[2:4]\<close> and \<^verbatim>\<open>move_str[4]\<close> count characters.
\<close>

fun parse_bestmove :: "string list \<Rightarrow> py_error + json" where
  "parse_bestmove [] = Inl (Exc ValueError ''Could not parse Stockfish output'')"
| "parse_bestmove (line # lines) =
     (if take 8 line = ''bestmove'' then
        (case split_ws [] (code_points line) of
           p # move_str # ps \<Rightarrow>
             Inr (JObj [(''from'', JStr (concat (take 2 (code_points move_str)))),
                        (''to'', JStr (concat (take 2 (drop 2 (code_points move_str))))),
                        (''promotion'',
                           if length (code_points move_str) > 4
                           then JStr (code_points move_str ! 4) else JNull)])
         | _ \<Rightarrow> parse_bestmove lines)
      else parse_bestmove lines)"

definition get_stockfish_move :: "agent_obj \<Rightarrow> json \<Rightarrow> py_error + json" where
  "get_stockfish_move self fen =
     (case engine self fen (depth self) of
        Inl e \<Rightarrow> Inl e
      | Inr stdout \<Rightarrow> parse_bestmove (split_on CHR 0x0A stdout))"

text \<open>The \<^verbatim>\<open>except Exception\<close> branch of \<^verbatim>\<open>StockfishBot.make_move\<close>.\<close>

definition fallback_move :: "agent_obj \<Rightarrow> json \<Rightarrow> (py_error + json) \<times> agent_obj" where
  "fallback_move self valid_moves =
     (case choice self valid_moves of
        (Inl e, self1) \<Rightarrow> (Inl e, self1)
      | (Inr best_move, self1) \<Rightarrow>
      (case py_getitem best_move ''from'' of
        Inl e \<Rightarrow> (Inl e, self1)
      | Inr f \<Rightarrow>
      (case py_getitem best_move ''to'' of
        Inl e \<Rightarrow> (Inl e, self1)
      | Inr t \<Rightarrow> (Inr (JObj [(''from'', f), (''to'', t)]), self1))))"

definition StockfishBot_make_move :: "agent_obj \<Rightarrow> json \<Rightarrow> (py_error + json) \<times> agent_obj" where
  "StockfishBot_make_move self game_state =
     (case py_get game_state ''fen'' (JStr []) of
        Inl e \<Rightarrow> (Inl e, self)
      | Inr fen \<Rightarrow>
     (case py_get game_state ''validMoves'' (JArr []) of
        Inl e \<Rightarrow> (Inl e, self)
      | Inr valid_moves \<Rightarrow>
          if \<not> truthy valid_moves then (Inl (Exc ValueError ''No valid moves!''), self)
          else
     (case (case get_stockfish_move self fen of
              Inr best_move \<Rightarrow> (Inr best_move, self)
            | Inl e \<Rightarrow> fallback_move self valid_moves) of
        (Inl e, self1) \<Rightarrow> (Inl e, self1)
      | (Inr best_move, self1) \<Rightarrow>
      (case choice self1 (JArr (winning_trash_talk self1)) of
        (Inl e, self2) \<Rightarrow> (Inl e, self2)
      | (Inr trash, self2) \<Rightarrow>
          (Inr (JObj [(''action'', best_move), (''trashTalk'', trash)]), self2)))))"

definition StockfishBot_on_game_start :: "agent_obj \<Rightarrow> json \<Rightarrow> (py_error + unit) \<times> agent_obj" where
  "StockfishBot_on_game_start self game_state =
     (case py_get game_state ''yourColor'' (JStr ''unknown'') of
        Inl e \<Rightarrow> (Inl e, self)
      | Inr colour \<Rightarrow> (Inr (), self))"

section \<open>Method resolution\<close>

text \<open>
  The example bots inherit \<^verbatim>\<open>game_type\<close> from \<^verbatim>\<open>ChessAgent\<close> and override the other
  methods; the classes of agent.py inherit the hooks of \<^verbatim>\<open>Agent\<close>, which do nothing.
\<close>

definition ChessAgent_init :: "string \<Rightarrow> string \<Rightarrow> agent_obj" where
  "ChessAgent_init n d =
     \<lparr>cls = ChessAgent, name = n, description = d, move_count = 0, trash_talk_lines = [],
      winning_trash_talk = [], depth = 0, rng = const_rng 0,
      engine = (\<lambda>fen d. Inl (Exc (OtherException ''FileNotFoundError'') []))\<rparr>"

definition make_move :: "agent_obj \<Rightarrow> json \<Rightarrow> (py_error + json) \<times> agent_obj" where
  "make_move self game_state =
     (case cls self of
        ChessAgent \<Rightarrow> (ChessAgent_make_move game_state, self)
      | TriviaAgent \<Rightarrow> (TriviaAgent_make_move game_state, self)
      | DebateAgent \<Rightarrow> (DebateAgent_make_move game_state, self)
      | SimpleChessBot \<Rightarrow> SimpleChessBot_make_move self game_state
      | StockfishBot \<Rightarrow> StockfishBot_make_move self game_state)"

definition on_game_start :: "agent_obj \<Rightarrow> json \<Rightarrow> (py_error + unit) \<times> agent_obj" where
  "on_game_start self game_state =
     (case cls self of
        SimpleChessBot \<Rightarrow> SimpleChessBot_on_game_start self game_state
      | StockfishBot \<Rightarrow> StockfishBot_on_game_start self game_state
      | _ \<Rightarrow> (Inr (), self))"

definition on_game_end :: "agent_obj \<Rightarrow> json \<Rightarrow> (py_error + unit) \<times> agent_obj" where
  "on_game_end self result = (Inr (), self)"

section \<open>server.py: the request handler\<close>

text \<open>
  The handler sees an agent through its attributes and methods only. \<open>'a\<close> is the
  agent object; a method returns its outcome (a value, or the exception it raised,
  always an instance of \<^verbatim>\<open>Exception\<close>) and the object as the call left it.
\<close>

record 'a agent_ops =
  get_name :: "'a \<Rightarrow> string"
  get_description :: "'a \<Rightarrow> string"
  get_game_type :: "'a \<Rightarrow> string"
  call_make_move :: "'a \<Rightarrow> json \<Rightarrow> (py_error + json) \<times> 'a"
  call_on_game_start :: "'a \<Rightarrow> json \<Rightarrow> (py_error + unit) \<times> 'a"
  call_on_game_end :: "'a \<Rightarrow> json \<Rightarrow> (py_error + unit) \<times> 'a"

definition sdk_agent :: "agent_obj agent_ops" where
  "sdk_agent =
     \<lparr>get_name = name, get_description = description, get_game_type = game_type,
      call_make_move = make_move, call_on_game_start = on_game_start,
      call_on_game_end = on_game_end\<rparr>"

text \<open>
  A request as the handler reads it: the method, the path, and what the four lines that
  read the body come to (\<^verbatim>\<open>int\<close> of the Content-Length header, \<^verbatim>\<open>rfile.read\<close>,
  \<^verbatim>\<open>decode\<close>, \<^verbatim>\<open>json.loads\<close>): the exception one of them raised, or the parsed value.
  A response is what \<^verbatim>\<open>_send_json\<close> writes, the status and the data before
  \<^verbatim>\<open>json.dumps\<close>; or the error page the base class of the handler writes by itself.
\<close>

record request =
  command :: string
  path :: string
  body :: "py_error + json"

datatype response =
    Json_Response nat json
  | Framework_Error nat string

definition send_json :: "json \<Rightarrow> nat \<Rightarrow> response" where
  "send_json data status = Json_Response status data"

definition send_error :: "nat \<Rightarrow> string \<Rightarrow> response" where
  "send_error status message = send_json (JObj [(''error'', JStr message)]) status"

definition do_GET :: "'a agent_ops \<Rightarrow> 'a \<Rightarrow> request \<Rightarrow> response \<times> 'a" where
  "do_GET ops agent req =
     (if path req = ''/health'' then (send_json (JObj [(''status'', JStr ''ok'')]) 200, agent)
      else if path req = ''/info'' then
        (send_json (JObj [(''name'', JStr (get_name ops agent)),
                          (''description'', JStr (get_description ops agent)),
                          (''gameType'', JStr (get_game_type ops agent))]) 200, agent)
      else (send_error 404 ''Not found'', agent))"

definition do_POST :: "'a agent_ops \<Rightarrow> 'a \<Rightarrow> request \<Rightarrow> response \<times> 'a" where
  "do_POST ops agent req =
     (if path req = ''/move'' then
        (case body req of
           Inl e \<Rightarrow> (send_error 500 (str_exc e), agent)
         | Inr data \<Rightarrow>
        (case py_get data ''gameState'' (JObj []) of
           Inl e \<Rightarrow> (send_error 500 (str_exc e), agent)
         | Inr game_state \<Rightarrow>
        (case call_make_move ops agent game_state of
           (Inl e, agent') \<Rightarrow> (send_error 500 (str_exc e), agent')
         | (Inr response, agent') \<Rightarrow> (send_json response 200, agent'))))
      else if path req = ''/game-start'' then
        (case body req of
           Inl e \<Rightarrow> (send_error 500 (str_exc e), agent)
         | Inr data \<Rightarrow>
        (case py_get data ''gameState'' (JObj []) of
           Inl e \<Rightarrow> (send_error 500 (str_exc e), agent)
         | Inr game_state \<Rightarrow>
        (case call_on_game_start ops agent game_state of
           (Inl e, agent') \<Rightarrow> (send_error 500 (str_exc e), agent')
         | (Inr u, agent') \<Rightarrow> (send_json (JObj [(''status'', JStr ''ok'')]) 200, agent'))))
      else if path req = ''/game-end'' then
        (case body req of
           Inl e \<Rightarrow> (send_error 500 (str_exc e), agent)
         | Inr data \<Rightarrow>
        (case py_get data ''result'' (JObj []) of
           Inl e \<Rightarrow> (send_error 500 (str_exc e), agent)
         | Inr result \<Rightarrow>
        (case call_on_game_end ops agent result of
           (Inl e, agent') \<Rightarrow> (send_error 500 (str_exc e), agent')
         | (Inr u, agent') \<Rightarrow> (send_json (JObj [(''status'', JStr ''ok'')]) 200, agent'))))
      else (send_error 404 ''Not found'', agent))"

text \<open>
  \<^verbatim>\<open>BaseHTTPRequestHandler\<close> calls the method \<^verbatim>\<open>do_\<close>\<open>command\<close> when the handler class
  has one and answers 501 by itself otherwise; \<^verbatim>\<open>AgentRequestHandler\<close> defines
  \<^verbatim>\<open>do_GET\<close> and \<^verbatim>\<open>do_POST\<close> only.
\<close>

definition handle_one_request :: "'a agent_ops \<Rightarrow> 'a \<Rightarrow> request \<Rightarrow> response \<times> 'a" where
  "handle_one_request ops agent req =
     (if command req = ''GET'' then do_GET ops agent req
      else if command req = ''POST'' then do_POST ops agent req
      else (Framework_Error 501 (''Unsupported method ('' @ quoted (command req) @ '')''), agent))"

text \<open>\<^verbatim>\<open>serve_forever\<close> on the requests that arrive, one at a time: the responses.\<close>

fun serve_forever :: "'a agent_ops \<Rightarrow> 'a \<Rightarrow> request list \<Rightarrow> response list" where
  "serve_forever ops agent [] = []"
| "serve_forever ops agent (req # reqs) =
     (case handle_one_request ops agent req of
        (resp, agent') \<Rightarrow> resp # serve_forever ops agent' reqs)"

section \<open>server.py: AgentServer\<close>

text \<open>
  Agent objects live in the process and are named by reference. A server object keeps
  the reference it was constructed with. \<^verbatim>\<open>AgentRequestHandler.agent\<close> is an attribute of
  the handler class, one per process; a handler instance has no attribute of its own, so
  \<^verbatim>\<open>self.agent\<close> in a handler reads the class attribute.
\<close>

record AgentServer =
  agent :: nat
  port :: nat

record process =
  objects :: "nat \<Rightarrow> agent_obj"
  handler_agent :: "nat option"
  listening :: "nat list"

text \<open>\<^verbatim>\<open>AgentServer.__init__\<close> stores its arguments in the new object and nothing else.\<close>

definition AgentServer_init :: "nat \<Rightarrow> nat \<Rightarrow> process \<Rightarrow> AgentServer \<times> process" where
  "AgentServer_init a p pr = (\<lparr>agent = a, port = p\<rparr>, pr)"

text \<open>
  \<^verbatim>\<open>AgentServer.run\<close> up to \<^verbatim>\<open>serve_forever\<close>: the class attribute is set first, then
  the port is bound, which fails when a server of the process listens on it already.
\<close>

definition run :: "AgentServer \<Rightarrow> process \<Rightarrow> (py_error + unit) \<times> process" where
  "run self pr =
     (let pr1 = pr\<lparr>handler_agent := Some (agent self)\<rparr> in
      if port self \<in> set (listening pr1)
      then (Inl (Exc (OtherException ''OSError'') ''[Errno 98] Address already in use''), pr1)
      else (Inr (), pr1\<lparr>listening := port self # listening pr1\<rparr>))"

text \<open>
  A request arriving on a port: refused when no server listens there, else handled by a
  new handler instance, whose agent is the one the class attribute refers to. (A port
  listens only after \<open>run\<close> has set the attribute, so the attribute is set by then.)
\<close>

definition request_on :: "nat \<Rightarrow> request \<Rightarrow> process \<Rightarrow> response option \<times> process" where
  "request_on p req pr =
     (if p \<notin> set (listening pr) then (None, pr)
      else
        (case handler_agent pr of
           None \<Rightarrow> (None, pr)
         | Some r \<Rightarrow>
             (case handle_one_request sdk_agent (objects pr r) req of
                (resp, obj) \<Rightarrow> (Some resp, pr\<lparr>objects := (objects pr)(r := obj)\<rparr>))))"

section \<open>Inputs and call sequences the properties speak about\<close>

text \<open>\<^verbatim>\<open>k in d\<close> for a dict \<open>d\<close>: whether a serialized object carries the key.\<close>

definition has_key :: "json \<Rightarrow> string \<Rightarrow> bool" where
  "has_key v k = (case v of JObj kvs \<Rightarrow> map_of kvs k \<noteq> None | _ \<Rightarrow> False)"

text \<open>
  A legal chess move as the docstring of \<^verbatim>\<open>ChessAgent.make_move\<close> describes the elements
  of \<^verbatim>\<open>validMoves\<close>: a dict with the strings \<^verbatim>\<open>from\<close>, \<^verbatim>\<open>to\<close> and \<^verbatim>\<open>san\<close>
  (\<^verbatim>\<open>promotion\<close> is optional).
\<close>

definition is_str :: "json option \<Rightarrow> bool" where
  "is_str v = (case v of Some (JStr s) \<Rightarrow> True | _ \<Rightarrow> False)"

definition chess_move :: "json \<Rightarrow> bool" where
  "chess_move m =
     (case m of
        JObj kvs \<Rightarrow>
          is_str (map_of kvs ''from'') \<and> is_str (map_of kvs ''to'') \<and> is_str (map_of kvs ''san'')
      | _ \<Rightarrow> False)"

text \<open>
  The calls an orchestrator can make on an agent, and the object a call leaves behind,
  whether the call returned or raised.
\<close>

datatype agent_call = Make_move json | On_game_start json | On_game_end json

fun after_call :: "agent_obj \<Rightarrow> agent_call \<Rightarrow> agent_obj" where
  "after_call self (Make_move game_state) = snd (make_move self game_state)"
| "after_call self (On_game_start game_state) = snd (on_game_start self game_state)"
| "after_call self (On_game_end result) = snd (on_game_end self result)"

definition after_calls :: "agent_obj \<Rightarrow> agent_call list \<Rightarrow> agent_obj" where
  "after_calls self calls = foldl after_call self calls"

text \<open>An agent with no state whose three methods raise \<open>e\<close>, for trying the handler.\<close>

definition raising_agent :: "py_error \<Rightarrow> unit agent_ops" where
  "raising_agent e =
     \<lparr>get_name = (\<lambda>u. ''raising''), get_description = (\<lambda>u. []),
      get_game_type = (\<lambda>u. ''chess''),
      call_make_move = (\<lambda>u game_state. (Inl e, u)),
      call_on_game_start = (\<lambda>u game_state. (Inl e, u)),
      call_on_game_end = (\<lambda>u result. (Inl e, u))\<rparr>"

text \<open>
  Three engines that fail: one whose \<^verbatim>\<open>communicate\<close> runs into the timeout, one that
  exits after its banner without a \<^verbatim>\<open>bestmove\<close> line, and one that has no move to give
  and says so.
\<close>

definition engine_timeout :: "json \<Rightarrow> int \<Rightarrow> py_error + string" where
  "engine_timeout fen d = Inl (Exc (OtherException ''TimeoutExpired'') ''timed out after 30 seconds'')"

definition engine_no_bestmove :: "json \<Rightarrow> int \<Rightarrow> py_error + string" where
  "engine_no_bestmove fen d = Inr (''Stockfish 16'' @ [CHR 0x0A] @ ''uciok'' @ [CHR 0x0A])"

definition engine_bestmove_none :: "json \<Rightarrow> int \<Rightarrow> py_error + string" where
  "engine_bestmove_none fen d = Inr (''readyok'' @ [CHR 0x0A] @ ''bestmove (none)'' @ [CHR 0x0A])"

text \<open>A process that has created two agent objects, references 0 and 1, and no server yet.\<close>

definition two_agents :: "agent_obj \<Rightarrow> agent_obj \<Rightarrow> process" where
  "two_agents a b =
     \<lparr>objects = (\<lambda>r. if r = 0 then a else b), handler_agent = None, listening = []\<rparr>"

section \<open>The default chess agent\<close>

text \<open>
  C10. For a game state whose \<^verbatim>\<open>validMoves\<close> is a non-empty list whose first element is
  a move with \<^verbatim>\<open>from\<close> and \<^verbatim>\<open>to\<close>, the default \<^verbatim>\<open>ChessAgent.make_move\<close> returns
  exactly \<^verbatim>\<open>{"action": {"from": ..., "to": ..., "promotion": ...}}\<close> built from that
  first move: \<^verbatim>\<open>promotion\<close> is always a key of the action, \<^verbatim>\<open>None\<close> when the move has
  none, and the response has no \<^verbatim>\<open>trashTalk\<close> key. The agent object is unchanged.
\<close>

theorem default_make_move_first_valid_move:
  assumes "cls self = ChessAgent"
      and "map_of gs ''validMoves'' = Some (JArr (JObj mv # rest))"
      and "map_of mv ''from'' = Some f"
      and "map_of mv ''to'' = Some t"
  shows "make_move self (JObj gs) =
           (Inr (JObj [(''action'',
                   JObj [(''from'', f), (''to'', t),
                         (''promotion'',
                            case map_of mv ''promotion'' of None \<Rightarrow> JNull | Some p \<Rightarrow> p)])]),
            self)
         \<and> \<not> has_key (projr (fst (make_move self (JObj gs)))) ''trashTalk''
         \<and> has_key (projr (fst (make_move self (JObj gs)))) ''action''"
  using assms by (simp add: make_move_def ChessAgent_make_move_def has_key_def)

theorem default_make_move_first_valid_move_witness:
  "make_move (ChessAgent_init ''Default'' [])
     (JObj [(''validMoves'',
        JArr [JObj [(''from'', JStr ''e2''), (''to'', JStr ''e4''), (''san'', JStr ''e4'')],
              JObj [(''from'', JStr ''e7''), (''to'', JStr ''e8''), (''promotion'', JStr ''q''),
                    (''san'', JStr ''e8=Q'')]])]) =
     (Inr (JObj [(''action'',
        JObj [(''from'', JStr ''e2''), (''to'', JStr ''e4''), (''promotion'', JNull)])]),
      ChessAgent_init ''Default'' [])"
proof -
  let ?mv = "[(''from'', JStr ''e2''), (''to'', JStr ''e4''), (''san'', JStr ''e4'')]"
  let ?rest = "[JObj [(''from'', JStr ''e7''), (''to'', JStr ''e8''), (''promotion'', JStr ''q''),
                      (''san'', JStr ''e8=Q'')]]"
  let ?gs = "[(''validMoves'', JArr (JObj ?mv # ?rest))]"
  have c: "cls (ChessAgent_init ''Default'' []) = ChessAgent"
    by (simp add: ChessAgent_init_def)
  have v: "map_of ?gs ''validMoves'' = Some (JArr (JObj ?mv # ?rest))" by simp
  have f: "map_of ?mv ''from'' = Some (JStr ''e2'')" by simp
  have t: "map_of ?mv ''to'' = Some (JStr ''e4'')" by simp
  show ?thesis
    using default_make_move_first_valid_move [OF c v f t] by simp
qed

section \<open>Empty valid moves over the wire\<close>

text \<open>
  C1. A \<^verbatim>\<open>POST /move\<close> whose body carries a game state with \<^verbatim>\<open>validMoves\<close> the empty
  list is answered, for an agent of each class of the SDK and its examples, with status
  500 and \<^verbatim>\<open>{"error": message}\<close> where the message is the non-empty text the class
  raises with; it is never a 200. The server goes on: the \<^verbatim>\<open>GET /health\<close> that follows
  is answered \<^verbatim>\<open>200 {"status": "ok"}\<close>.
\<close>

theorem empty_valid_moves_error_then_health_ok:
  assumes "map_of data ''gameState'' = Some (JObj gs)"
      and "map_of gs ''validMoves'' = Some (JArr [])"
  shows "serve_forever sdk_agent self
           [\<lparr>command = ''POST'', path = ''/move'', body = Inr (JObj data)\<rparr>,
            \<lparr>command = ''GET'', path = ''/health'', body = b\<rparr>] =
         [Json_Response 500
            (JObj [(''error'', JStr
               (case cls self of
                  ChessAgent \<Rightarrow> ''No valid moves available''
                | TriviaAgent \<Rightarrow> ''Trivia agent not yet implemented''
                | DebateAgent \<Rightarrow> ''Debate agent not yet implemented''
                | SimpleChessBot \<Rightarrow> ''No valid moves!''
                | StockfishBot \<Rightarrow> ''No valid moves!''))]),
          Json_Response 200 (JObj [(''status'', JStr ''ok'')])]"
  using assms
  by (cases "cls self")
     (simp_all add: handle_one_request_def do_POST_def do_GET_def sdk_agent_def make_move_def
        ChessAgent_make_move_def TriviaAgent_make_move_def DebateAgent_make_move_def
        SimpleChessBot_make_move_def StockfishBot_make_move_def send_error_def send_json_def
        Let_def)

theorem empty_valid_moves_error_then_health_ok_witness:
  "serve_forever sdk_agent (SimpleChessBot_init (const_rng 0))
     [\<lparr>command = ''POST'', path = ''/move'',
       body = Inr (JObj [(''gameState'', JObj [(''validMoves'', JArr [])])])\<rparr>,
      \<lparr>command = ''GET'', path = ''/health'', body = Inr JNull\<rparr>] =
   [Json_Response 500 (JObj [(''error'', JStr ''No valid moves!'')]),
    Json_Response 200 (JObj [(''status'', JStr ''ok'')])]"
proof -
  let ?gs = "[(''validMoves'', JArr [])]"
  let ?data = "[(''gameState'', JObj ?gs)]"
  have d: "map_of ?data ''gameState'' = Some (JObj ?gs)" by simp
  have v: "map_of ?gs ''validMoves'' = Some (JArr [])" by simp
  show ?thesis
    using empty_valid_moves_error_then_health_ok
            [OF d v, of "SimpleChessBot_init (const_rng 0)" "Inr JNull"]
    by (simp add: SimpleChessBot_init_def)
qed

section \<open>The dispatch boundary\<close>

lemma length_serve_forever: "length (serve_forever ops a reqs) = length reqs"
  by (induction reqs arbitrary: a) (auto split: prod.splits)

text \<open>
  C7. When the agent method a \<^verbatim>\<open>POST /move\<close>, \<^verbatim>\<open>/game-start\<close> or \<^verbatim>\<open>/game-end\<close>
  request calls raises an exception \<open>e\<close>, for any agent whatever, the response is status
  500 with the body \<^verbatim>\<open>{"error": str(e)}\<close>, and the server goes on with the requests
  that follow, from the agent as the failed call left it, answering each of them.
\<close>

theorem agent_error_is_500_and_serving_continues:
  assumes "command req = ''POST''"
      and "body req = Inr (JObj data)"
      and "(path req = ''/move'' \<and>
              call_make_move ops a
                (case map_of data ''gameState'' of None \<Rightarrow> JObj [] | Some v \<Rightarrow> v) = (Inl e, a'))
         \<or> (path req = ''/game-start'' \<and>
              call_on_game_start ops a
                (case map_of data ''gameState'' of None \<Rightarrow> JObj [] | Some v \<Rightarrow> v) = (Inl e, a'))
         \<or> (path req = ''/game-end'' \<and>
              call_on_game_end ops a
                (case map_of data ''result'' of None \<Rightarrow> JObj [] | Some v \<Rightarrow> v) = (Inl e, a'))"
  shows "serve_forever ops a (req # reqs) =
           Json_Response 500 (JObj [(''error'', JStr (str_exc e))]) # serve_forever ops a' reqs
         \<and> length (serve_forever ops a' reqs) = length reqs"
  using assms
  by (auto simp add: handle_one_request_def do_POST_def send_error_def send_json_def
        length_serve_forever)

theorem agent_error_is_500_and_serving_continues_witness:
  "serve_forever (raising_agent (Exc ValueError ''boom'')) ()
     [\<lparr>command = ''POST'', path = ''/move'', body = Inr (JObj [(''gameState'', JObj [])])\<rparr>,
      \<lparr>command = ''POST'', path = ''/game-start'', body = Inr (JObj [])\<rparr>,
      \<lparr>command = ''POST'', path = ''/game-end'', body = Inr (JObj [(''result'', JNull)])\<rparr>,
      \<lparr>command = ''GET'', path = ''/health'', body = Inr JNull\<rparr>] =
   [Json_Response 500 (JObj [(''error'', JStr ''boom'')]),
    Json_Response 500 (JObj [(''error'', JStr ''boom'')]),
    Json_Response 500 (JObj [(''error'', JStr ''boom'')]),
    Json_Response 200 (JObj [(''status'', JStr ''ok'')])]"
proof -
  let ?ops = "raising_agent (Exc ValueError ''boom'')"
  let ?r1 = "\<lparr>command = ''POST'', path = ''/move'', body = Inr (JObj [(''gameState'', JObj [])])\<rparr>"
  let ?r2 = "\<lparr>command = ''POST'', path = ''/game-start'', body = Inr (JObj [])\<rparr>"
  let ?r3 = "\<lparr>command = ''POST'', path = ''/game-end'', body = Inr (JObj [(''result'', JNull)])\<rparr>"
  let ?r4 = "\<lparr>command = ''GET'', path = ''/health'', body = Inr JNull\<rparr>"
  have c1: "command ?r1 = ''POST''" and b1: "body ?r1 = Inr (JObj [(''gameState'', JObj [])])"
    by simp_all
  have h1: "(path ?r1 = ''/move'' \<and>
              call_make_move ?ops ()
                (case map_of [(''gameState'', JObj [])] ''gameState'' of
                   None \<Rightarrow> JObj [] | Some v \<Rightarrow> v) = (Inl (Exc ValueError ''boom''), ()))
         \<or> (path ?r1 = ''/game-start'' \<and>
              call_on_game_start ?ops ()
                (case map_of [(''gameState'', JObj [])] ''gameState'' of
                   None \<Rightarrow> JObj [] | Some v \<Rightarrow> v) = (Inl (Exc ValueError ''boom''), ()))
         \<or> (path ?r1 = ''/game-end'' \<and>
              call_on_game_end ?ops ()
                (case map_of [(''gameState'', JObj [])] ''result'' of
                   None \<Rightarrow> JObj [] | Some v \<Rightarrow> v) = (Inl (Exc ValueError ''boom''), ()))"
    by (simp add: raising_agent_def)
  have c2: "command ?r2 = ''POST''" and b2: "body ?r2 = Inr (JObj [])"
    by simp_all
  have h2: "(path ?r2 = ''/move'' \<and>
              call_make_move ?ops ()
                (case map_of [] ''gameState'' of None \<Rightarrow> JObj [] | Some v \<Rightarrow> v) =
                (Inl (Exc ValueError ''boom''), ()))
         \<or> (path ?r2 = ''/game-start'' \<and>
              call_on_game_start ?ops ()
                (case map_of [] ''gameState'' of None \<Rightarrow> JObj [] | Some v \<Rightarrow> v) =
                (Inl (Exc ValueError ''boom''), ()))
         \<or> (path ?r2 = ''/game-end'' \<and>
              call_on_game_end ?ops ()
                (case map_of [] ''result'' of None \<Rightarrow> JObj [] | Some v \<Rightarrow> v) =
                (Inl (Exc ValueError ''boom''), ()))"
    by (simp add: raising_agent_def)
  have c3: "command ?r3 = ''POST''" and b3: "body ?r3 = Inr (JObj [(''result'', JNull)])"
    by simp_all
  have h3: "(path ?r3 = ''/move'' \<and>
              call_make_move ?ops ()
                (case map_of [(''result'', JNull)] ''gameState'' of
                   None \<Rightarrow> JObj [] | Some v \<Rightarrow> v) = (Inl (Exc ValueError ''boom''), ()))
         \<or> (path ?r3 = ''/game-start'' \<and>
              call_on_game_start ?ops ()
                (case map_of [(''result'', JNull)] ''gameState'' of
                   None \<Rightarrow> JObj [] | Some v \<Rightarrow> v) = (Inl (Exc ValueError ''boom''), ()))
         \<or> (path ?r3 = ''/game-end'' \<and>
              call_on_game_end ?ops ()
                (case map_of [(''result'', JNull)] ''result'' of
                   None \<Rightarrow> JObj [] | Some v \<Rightarrow> v) = (Inl (Exc ValueError ''boom''), ()))"
    by (simp add: raising_agent_def)
  have last: "serve_forever ?ops () [?r4] = [Json_Response 200 (JObj [(''status'', JStr ''ok'')])]"
    by (simp add: handle_one_request_def do_GET_def send_json_def)
  from agent_error_is_500_and_serving_continues [OF c3 b3 h3, of "[?r4]"]
  have s3: "serve_forever ?ops () [?r3, ?r4] =
      [Json_Response 500 (JObj [(''error'', JStr ''boom'')]),
       Json_Response 200 (JObj [(''status'', JStr ''ok'')])]"
    using last by simp
  from agent_error_is_500_and_serving_continues [OF c2 b2 h2, of "[?r3, ?r4]"]
  have s2: "serve_forever ?ops () [?r2, ?r3, ?r4] =
      [Json_Response 500 (JObj [(''error'', JStr ''boom'')]),
       Json_Response 500 (JObj [(''error'', JStr ''boom'')]),
       Json_Response 200 (JObj [(''status'', JStr ''ok'')])]"
    using s3 by simp
  from agent_error_is_500_and_serving_continues [OF c1 b1 h1, of "[?r2, ?r3, ?r4]"]
  show ?thesis using s2 by simp
qed


section \<open>Unmatched routes\<close>

text \<open>
  C8, as the code has it. Every \<^verbatim>\<open>GET\<close> or \<^verbatim>\<open>POST\<close> request whose method and path are
  not one of the five routes is answered with status 404 and the body
  \<^verbatim>\<open>{"error": "Not found"}\<close>, for any agent, and the agent is left as it was. A request
  with any other method reaches neither \<^verbatim>\<open>do_GET\<close> nor \<^verbatim>\<open>do_POST\<close> and is not
  covered by this statement.
\<close>

theorem unmatched_get_or_post_is_404:
  assumes "command req = ''GET'' \<or> command req = ''POST''"
      and "(command req, path req) \<notin>
             set [(''GET'', ''/health''), (''GET'', ''/info''), (''POST'', ''/move''),
                  (''POST'', ''/game-start''), (''POST'', ''/game-end'')]"
  shows "handle_one_request ops a req =
           (Json_Response 404 (JObj [(''error'', JStr ''Not found'')]), a)"
  using assms
  by (auto simp add: handle_one_request_def do_POST_def do_GET_def send_error_def send_json_def)

theorem unmatched_get_or_post_is_404_witness:
  "handle_one_request sdk_agent (ChessAgent_init ''Default'' [])
     \<lparr>command = ''GET'', path = ''/unknown'', body = Inr JNull\<rparr> =
     (Json_Response 404 (JObj [(''error'', JStr ''Not found'')]), ChessAgent_init ''Default'' [])
   \<and> handle_one_request sdk_agent (ChessAgent_init ''Default'' [])
     \<lparr>command = ''POST'', path = ''/health'', body = Inr JNull\<rparr> =
     (Json_Response 404 (JObj [(''error'', JStr ''Not found'')]), ChessAgent_init ''Default'' [])"
proof -
  let ?g = "\<lparr>command = ''GET'', path = ''/unknown'', body = Inr JNull\<rparr>"
  let ?p = "\<lparr>command = ''POST'', path = ''/health'', body = Inr JNull\<rparr>"
  let ?routes = "[(''GET'', ''/health''), (''GET'', ''/info''), (''POST'', ''/move''),
                  (''POST'', ''/game-start''), (''POST'', ''/game-end'')]"
  have g1: "command ?g = ''GET'' \<or> command ?g = ''POST''" by simp
  have g2: "(command ?g, path ?g) \<notin> set ?routes" by simp
  have p1: "command ?p = ''GET'' \<or> command ?p = ''POST''" by simp
  have p2: "(command ?p, path ?p) \<notin> set ?routes" by simp
  show ?thesis
    using unmatched_get_or_post_is_404 [OF g1 g2, of sdk_agent "ChessAgent_init ''Default'' []"]
      unmatched_get_or_post_is_404 [OF p1 p2, of sdk_agent "ChessAgent_init ''Default'' []"]
    by simp
qed

text \<open>
  The claim as written also covers the other methods. A \<^verbatim>\<open>PUT /move\<close> matches no
  route, and the answer is the 501 page of the base class, not the 404 JSON body.
\<close>

theorem unmatched_put_is_not_404:
  "handle_one_request sdk_agent (ChessAgent_init ''Default'' [])
     \<lparr>command = ''PUT'', path = ''/move'', body = Inr (JObj [])\<rparr> =
     (Framework_Error 501 (''Unsupported method ('' @ quoted ''PUT'' @ '')''),
      ChessAgent_init ''Default'' [])
   \<and> fst (handle_one_request sdk_agent (ChessAgent_init ''Default'' [])
           \<lparr>command = ''PUT'', path = ''/move'', body = Inr (JObj [])\<rparr>) \<noteq>
     Json_Response 404 (JObj [(''error'', JStr ''Not found'')])"
  by (simp add: handle_one_request_def)


section \<open>Bodies that lack the expected key\<close>

text \<open>
  C2, as the code has it. A \<^verbatim>\<open>POST /move\<close>, \<^verbatim>\<open>/game-start\<close> or \<^verbatim>\<open>/game-end\<close> whose
  body is a JSON object without the key the route reads (\<^verbatim>\<open>gameState\<close>,
  \<^verbatim>\<open>gameState\<close>, \<^verbatim>\<open>result\<close>) is not refused: the handler puts the empty object in the
  place of the missing value and calls the agent with it, and the response and the
  agent's state are whatever that call gives, 200 when it returns and 500 with its
  message when it raises. A request is failed at the boundary without calling the agent,
  status 500 and the agent as it was, when reading or parsing the body raised, and when
  the body is JSON but not an object.
\<close>

theorem missing_key_calls_agent_with_empty_object:
  assumes "command req = ''POST''"
  shows "(path req = ''/move'' \<and> body req = Inr (JObj data)
            \<and> map_of data ''gameState'' = None \<longrightarrow>
           handle_one_request ops a req =
             (case call_make_move ops a (JObj []) of
                (Inl e, a') \<Rightarrow> (Json_Response 500 (JObj [(''error'', JStr (str_exc e))]), a')
              | (Inr r, a') \<Rightarrow> (Json_Response 200 r, a')))
       \<and> (path req = ''/game-start'' \<and> body req = Inr (JObj data)
            \<and> map_of data ''gameState'' = None \<longrightarrow>
           handle_one_request ops a req =
             (case call_on_game_start ops a (JObj []) of
                (Inl e, a') \<Rightarrow> (Json_Response 500 (JObj [(''error'', JStr (str_exc e))]), a')
              | (Inr u, a') \<Rightarrow> (Json_Response 200 (JObj [(''status'', JStr ''ok'')]), a')))
       \<and> (path req = ''/game-end'' \<and> body req = Inr (JObj data)
            \<and> map_of data ''result'' = None \<longrightarrow>
           handle_one_request ops a req =
             (case call_on_game_end ops a (JObj []) of
                (Inl e, a') \<Rightarrow> (Json_Response 500 (JObj [(''error'', JStr (str_exc e))]), a')
              | (Inr u, a') \<Rightarrow> (Json_Response 200 (JObj [(''status'', JStr ''ok'')]), a')))
       \<and> (path req \<in> set [''/move'', ''/game-start'', ''/game-end''] \<and> body req = Inl err \<longrightarrow>
           handle_one_request ops a req =
             (Json_Response 500 (JObj [(''error'', JStr (str_exc err))]), a))
       \<and> (path req \<in> set [''/move'', ''/game-start'', ''/game-end''] \<and> body req = Inr v
            \<and> type_name v \<noteq> ''dict'' \<longrightarrow>
           handle_one_request ops a req =
             (Json_Response 500
                (JObj [(''error'', JStr (quoted (type_name v) @ '' object has no attribute ''
                                           @ quoted ''get''))]), a))"
  using assms
  by (cases v)
     (auto simp add: handle_one_request_def do_POST_def send_error_def send_json_def
        split: prod.splits sum.splits)

theorem missing_key_calls_agent_with_empty_object_witness:
  "handle_one_request sdk_agent (SimpleChessBot_init (const_rng 0))
     \<lparr>command = ''POST'', path = ''/move'', body = Inr (JObj [])\<rparr> =
     (Json_Response 500 (JObj [(''error'', JStr ''No valid moves!'')]),
      (SimpleChessBot_init (const_rng 0))\<lparr>move_count := 1\<rparr>)
   \<and> handle_one_request sdk_agent ((SimpleChessBot_init (const_rng 0))\<lparr>move_count := 5\<rparr>)
     \<lparr>command = ''POST'', path = ''/game-start'', body = Inr (JObj [])\<rparr> =
     (Json_Response 200 (JObj [(''status'', JStr ''ok'')]), SimpleChessBot_init (const_rng 0))
   \<and> handle_one_request sdk_agent (SimpleChessBot_init (const_rng 0))
     \<lparr>command = ''POST'', path = ''/game-end'', body = Inr (JObj [])\<rparr> =
     (Json_Response 200 (JObj [(''status'', JStr ''ok'')]), SimpleChessBot_init (const_rng 0))
   \<and> handle_one_request sdk_agent (SimpleChessBot_init (const_rng 0))
     \<lparr>command = ''POST'', path = ''/move'',
      body = Inl (Exc (OtherException ''JSONDecodeError'')
                    ''Expecting value: line 1 column 1 (char 0)'')\<rparr> =
     (Json_Response 500 (JObj [(''error'', JStr ''Expecting value: line 1 column 1 (char 0)'')]),
      SimpleChessBot_init (const_rng 0))
   \<and> handle_one_request sdk_agent (SimpleChessBot_init (const_rng 0))
     \<lparr>command = ''POST'', path = ''/game-end'', body = Inr (JArr [])\<rparr> =
     (Json_Response 500
        (JObj [(''error'', JStr (quoted ''list'' @ '' object has no attribute '' @ quoted ''get''))]),
      SimpleChessBot_init (const_rng 0))"
proof -
  let ?bot = "SimpleChessBot_init (const_rng 0)"
  let ?bad = "Exc (OtherException ''JSONDecodeError'') ''Expecting value: line 1 column 1 (char 0)''"
  let ?m = "\<lparr>command = ''POST'', path = ''/move'', body = Inr (JObj [])\<rparr>"
  let ?s = "\<lparr>command = ''POST'', path = ''/game-start'', body = Inr (JObj [])\<rparr>"
  let ?e = "\<lparr>command = ''POST'', path = ''/game-end'', body = Inr (JObj [])\<rparr>"
  let ?x = "\<lparr>command = ''POST'', path = ''/move'', body = Inl ?bad\<rparr>"
  have pm: "command ?m = ''POST''" and ps: "command ?s = ''POST''"
    and pe: "command ?e = ''POST''" and px: "command ?x = ''POST''"
    by simp_all
  have hm: "path ?m = ''/move'' \<and> body ?m = Inr (JObj []) \<and> map_of [] ''gameState'' = (None :: json option)"
    by simp
  have hs: "path ?s = ''/game-start'' \<and> body ?s = Inr (JObj [])
      \<and> map_of [] ''gameState'' = (None :: json option)"
    by simp
  have he: "path ?e = ''/game-end'' \<and> body ?e = Inr (JObj []) \<and> map_of [] ''result'' = (None :: json option)"
    by simp
  have hx: "path ?x \<in> set [''/move'', ''/game-start'', ''/game-end''] \<and> body ?x = Inl ?bad"
    by simp
  have mm: "call_make_move sdk_agent ?bot (JObj []) =
      (Inl (Exc ValueError ''No valid moves!''), ?bot\<lparr>move_count := 1\<rparr>)"
    by (simp add: sdk_agent_def make_move_def SimpleChessBot_make_move_def
          SimpleChessBot_init_def Let_def)
  have ss: "call_on_game_start sdk_agent (?bot\<lparr>move_count := 5\<rparr>) (JObj []) = (Inr (), ?bot)"
    by (simp add: sdk_agent_def on_game_start_def SimpleChessBot_on_game_start_def
          SimpleChessBot_init_def Let_def)
  have ee: "call_on_game_end sdk_agent ?bot (JObj []) = (Inr (), ?bot)"
    by (simp add: sdk_agent_def on_game_end_def)
  from missing_key_calls_agent_with_empty_object [OF pm, of "[]" sdk_agent ?bot] hm mm
  have 1: "handle_one_request sdk_agent ?bot ?m =
      (Json_Response 500 (JObj [(''error'', JStr ''No valid moves!'')]), ?bot\<lparr>move_count := 1\<rparr>)"
    by simp
  from missing_key_calls_agent_with_empty_object
         [OF ps, of "[]" sdk_agent "?bot\<lparr>move_count := 5\<rparr>"] hs ss
  have 2: "handle_one_request sdk_agent (?bot\<lparr>move_count := 5\<rparr>) ?s =
      (Json_Response 200 (JObj [(''status'', JStr ''ok'')]), ?bot)"
    by simp
  from missing_key_calls_agent_with_empty_object [OF pe, of "[]" sdk_agent ?bot] he ee
  have 3: "handle_one_request sdk_agent ?bot ?e =
      (Json_Response 200 (JObj [(''status'', JStr ''ok'')]), ?bot)"
    by simp
  from missing_key_calls_agent_with_empty_object [OF px, of "[]" sdk_agent ?bot ?bad] hx
  have 4: "handle_one_request sdk_agent ?bot ?x =
      (Json_Response 500 (JObj [(''error'', JStr ''Expecting value: line 1 column 1 (char 0)'')]),
       ?bot)"
    by simp
  let ?l = "\<lparr>command = ''POST'', path = ''/game-end'', body = Inr (JArr [])\<rparr>"
  have pl: "command ?l = ''POST''" by simp
  have hl: "path ?l \<in> set [''/move'', ''/game-start'', ''/game-end''] \<and> body ?l = Inr (JArr [])
      \<and> type_name (JArr []) \<noteq> ''dict''"
    by simp
  from missing_key_calls_agent_with_empty_object [OF pl, of "[]" sdk_agent ?bot ?bad "JArr []"] hl
  have 5: "handle_one_request sdk_agent ?bot ?l =
      (Json_Response 500
         (JObj [(''error'', JStr (quoted ''list'' @ '' object has no attribute '' @ quoted ''get''))]),
       ?bot)"
    by simp
  from 1 2 3 4 5 show ?thesis by simp
qed

text \<open>
  The claim as written fails: a \<^verbatim>\<open>POST /game-start\<close> with the body \<^verbatim>\<open>{}\<close> is answered
  200, and the hook has run, for it has reset the counter of the bot from 5 to 0.
\<close>

theorem missing_key_is_served_and_agent_runs:
  "handle_one_request sdk_agent ((SimpleChessBot_init (const_rng 0))\<lparr>move_count := 5\<rparr>)
     \<lparr>command = ''POST'', path = ''/game-start'', body = Inr (JObj [])\<rparr> =
     (Json_Response 200 (JObj [(''status'', JStr ''ok'')]), SimpleChessBot_init (const_rng 0))
   \<and> (SimpleChessBot_init (const_rng 0))\<lparr>move_count := 5\<rparr> \<noteq> SimpleChessBot_init (const_rng 0)"
  by (simp add: handle_one_request_def do_POST_def sdk_agent_def on_game_start_def
        SimpleChessBot_on_game_start_def SimpleChessBot_init_def send_json_def)


section \<open>The game type of an agent\<close>

lemma cls_choice: "cls (snd (choice self seq)) = cls self"
  by (simp add: choice_def split: prod.splits)

lemma cls_select_move: "cls (snd (select_move self moves gs)) = cls self"
  by (simp add: select_move_def cls_choice split: sum.splits)

lemma cls_SimpleChessBot_make_move: "cls (snd (SimpleChessBot_make_move self gs)) = cls self"
proof -
  have sel: "\<And>s r s'. select_move s r gs = (x, s') \<Longrightarrow> cls s' = cls s" for x
    using cls_select_move by (metis snd_conv)
  have cho: "\<And>s r s'. choice s r = (x, s') \<Longrightarrow> cls s' = cls s" for x
    using cls_choice by (metis snd_conv)
  show ?thesis
    by (auto simp add: SimpleChessBot_make_move_def Let_def split: sum.splits prod.splits
          dest!: sel cho)
qed

lemma cls_fallback_move: "cls (snd (fallback_move self vm)) = cls self"
proof -
  have cho: "\<And>s r s'. choice s r = (x, s') \<Longrightarrow> cls s' = cls s" for x
    using cls_choice by (metis snd_conv)
  show ?thesis
    by (auto simp add: fallback_move_def split: sum.splits prod.splits dest!: cho)
qed

lemma cls_StockfishBot_make_move: "cls (snd (StockfishBot_make_move self gs)) = cls self"
proof -
  have fb: "\<And>s r s'. fallback_move s r = (x, s') \<Longrightarrow> cls s' = cls s" for x
    using cls_fallback_move by (metis snd_conv)
  have cho: "\<And>s r s'. choice s r = (x, s') \<Longrightarrow> cls s' = cls s" for x
    using cls_choice by (metis snd_conv)
  show ?thesis
    by (auto simp add: StockfishBot_make_move_def split: sum.splits prod.splits dest!: fb cho)
qed

lemma cls_make_move: "cls (snd (make_move self gs)) = cls self"
  by (cases "cls self")
     (simp_all add: make_move_def cls_SimpleChessBot_make_move cls_StockfishBot_make_move)

lemma cls_on_game_start: "cls (snd (on_game_start self gs)) = cls self"
  by (cases "cls self")
     (simp_all add: on_game_start_def SimpleChessBot_on_game_start_def
        StockfishBot_on_game_start_def Let_def split: sum.splits)

lemma cls_after_call: "cls (after_call self c) = cls self"
  by (cases c) (simp_all add: cls_make_move cls_on_game_start on_game_end_def)

lemma cls_after_calls: "cls (after_calls self calls) = cls self"
  unfolding after_calls_def
  by (induction calls arbitrary: self) (simp_all add: cls_after_call)

text \<open>
  C9. For an agent of any class of the SDK and its examples, \<^verbatim>\<open>game_type\<close> read after
  any sequence of \<^verbatim>\<open>make_move\<close>, \<^verbatim>\<open>on_game_start\<close> and \<^verbatim>\<open>on_game_end\<close> calls, whether
  they returned or raised, is what it was before them; it is not empty, and it is the
  fixed string of the class: \<^verbatim>\<open>"chess"\<close> for \<^verbatim>\<open>ChessAgent\<close> and the two example bots,
  \<^verbatim>\<open>"trivia"\<close> for \<^verbatim>\<open>TriviaAgent\<close>, \<^verbatim>\<open>"debate"\<close> for \<^verbatim>\<open>DebateAgent\<close>.
\<close>

theorem game_type_stable_and_nonempty:
  "game_type (after_calls self calls) = game_type self
   \<and> game_type self \<noteq> []
   \<and> game_type self =
       (case cls self of
          ChessAgent \<Rightarrow> ''chess''
        | TriviaAgent \<Rightarrow> ''trivia''
        | DebateAgent \<Rightarrow> ''debate''
        | SimpleChessBot \<Rightarrow> ''chess''
        | StockfishBot \<Rightarrow> ''chess'')"
  by (cases "cls self") (simp_all add: game_type_def cls_after_calls)

theorem game_type_stable_and_nonempty_witness:
  "game_type (after_calls (SimpleChessBot_init (const_rng 3))
     [On_game_start (JObj []), Make_move (JObj []), Make_move JNull, On_game_end JNull]) =
   ''chess''"
  using game_type_stable_and_nonempty
    [of "SimpleChessBot_init (const_rng 3)"
        "[On_game_start (JObj []), Make_move (JObj []), Make_move JNull, On_game_end JNull]"]
  by (simp add: SimpleChessBot_init_def)


section \<open>Commentary in the serialized response\<close>

text \<open>
  \<^verbatim>\<open>MoveResponse.to_dict\<close> leaves the key out when there is no commentary or it is
  empty, and carries a non-empty string otherwise.
\<close>

lemma to_dict_trash_talk:
  "to_dict r =
     (if trash_talk r = None \<or> trash_talk r = Some [] then JObj [(''action'', action r)]
      else JObj [(''action'', action r), (''trashTalk'', JStr (the (trash_talk r)))])"
  by (auto simp: to_dict_def split: option.splits)

lemma has_key_to_dict_trash_talk:
  "has_key (to_dict r) ''trashTalk'' = (\<exists>t. trash_talk r = Some t \<and> t \<noteq> [])"
  by (auto simp: to_dict_def has_key_def split: option.splits)

text \<open>
  C3. The example bot does not build its response with \<^verbatim>\<open>MoveResponse\<close>. When
  \<^verbatim>\<open>random.choice\<close> picks one of the two \<^verbatim>\<open>None\<close> entries of its trash talk lines (here
  the draw 6, the seventh entry), the response the server sends for a \<^verbatim>\<open>POST /move\<close> is
  a 200 whose body has the key \<^verbatim>\<open>trashTalk\<close> with the value \<^verbatim>\<open>null\<close>.
\<close>

theorem simple_bot_sends_null_trash_talk:
  "handle_one_request sdk_agent (SimpleChessBot_init (const_rng 6))
     \<lparr>command = ''POST'', path = ''/move'',
      body = Inr (JObj [(''gameState'', JObj [(''validMoves'',
                 JArr [JObj [(''from'', JStr ''e2''), (''to'', JStr ''e4''),
                             (''san'', JStr ''e4'')]])])])\<rparr> =
   (Json_Response 200
      (JObj [(''action'', JObj [(''from'', JStr ''e2''), (''to'', JStr ''e4''),
                                (''promotion'', JNull)]),
             (''trashTalk'', JNull)]),
    (SimpleChessBot_init (const_rng 6))\<lparr>move_count := 1\<rparr>)"
  by (simp add: handle_one_request_def do_POST_def sdk_agent_def make_move_def
        SimpleChessBot_make_move_def SimpleChessBot_init_def select_move_def is_capture_def
        is_check_def is_center_def san_contains_def center_squares_def choice_def
        const_rng_def next_rng_def send_json_def Let_def)


section \<open>Which agent a server dispatches to\<close>

text \<open>
  C4, as the code has it. Constructing a server changes nothing in the process.
  Running a server stores its agent in the attribute of the handler class, so after
  \<open>run\<close> of a server \<open>s\<close>, whether it could bind its port or not, a request on any
  listening port of the process is dispatched to the agent of \<open>s\<close>, the server that ran
  last, whichever server owns the port.
\<close>

theorem dispatch_uses_agent_of_last_run:
  "handler_agent (snd (AgentServer_init a p pr)) = handler_agent pr
   \<and> handler_agent (snd (run s pr)) = Some (agent s)
   \<and> (q \<in> set (listening (snd (run s pr))) \<longrightarrow>
        request_on q req (snd (run s pr)) =
          (case handle_one_request sdk_agent (objects pr (agent s)) req of
             (resp, obj) \<Rightarrow>
               (Some resp, (snd (run s pr))\<lparr>objects := (objects pr)(agent s := obj)\<rparr>)))"
  by (auto simp add: AgentServer_init_def run_def request_on_def Let_def split: prod.splits)

theorem dispatch_uses_agent_of_last_run_witness:
  "fst (request_on 8080 \<lparr>command = ''GET'', path = ''/info'', body = Inr JNull\<rparr>
      (snd (run \<lparr>agent = 0, port = 8080\<rparr>
              (two_agents (ChessAgent_init ''Alpha'' []) (ChessAgent_init ''Beta'' []))))) =
   Some (Json_Response 200
           (JObj [(''name'', JStr ''Alpha''), (''description'', JStr []),
                  (''gameType'', JStr ''chess'')]))"
proof -
  let ?pr = "two_agents (ChessAgent_init ''Alpha'' []) (ChessAgent_init ''Beta'' [])"
  let ?s = "\<lparr>agent = 0, port = 8080\<rparr>"
  let ?req = "\<lparr>command = ''GET'', path = ''/info'', body = Inr JNull\<rparr>"
  have h: "8080 \<in> set (listening (snd (run ?s ?pr)))"
    by (simp add: run_def two_agents_def Let_def)
  have o: "objects ?pr (agent ?s) = ChessAgent_init ''Alpha'' []"
    by (simp add: two_agents_def)
  have r: "handle_one_request sdk_agent (ChessAgent_init ''Alpha'' []) ?req =
      (Json_Response 200
         (JObj [(''name'', JStr ''Alpha''), (''description'', JStr []),
                (''gameType'', JStr ''chess'')]), ChessAgent_init ''Alpha'' [])"
    by (simp add: handle_one_request_def do_GET_def sdk_agent_def ChessAgent_init_def
          game_type_def send_json_def)
  from dispatch_uses_agent_of_last_run [of 0 8080 ?pr ?s 8080 ?req] h
  have "request_on 8080 ?req (snd (run ?s ?pr)) =
          (case handle_one_request sdk_agent (objects ?pr (agent ?s)) ?req of
             (resp, obj) \<Rightarrow>
               (Some resp, (snd (run ?s ?pr))\<lparr>objects := (objects ?pr)(agent ?s := obj)\<rparr>))"
    by blast
  then show ?thesis
    by (simp only: o r prod.case fst_conv)
qed

text \<open>
  The claim as written fails. Two servers are constructed with distinct agents, Alpha on
  port 8080 and Beta on port 8081. While only the first runs, \<^verbatim>\<open>GET /info\<close> on port 8080
  names Alpha; once the second runs too, the same request on port 8080 names Beta.
\<close>

theorem second_server_replaces_agent_of_first:
  "fst (request_on 8080 \<lparr>command = ''GET'', path = ''/info'', body = Inr JNull\<rparr>
      (snd (run \<lparr>agent = 0, port = 8080\<rparr>
              (two_agents (ChessAgent_init ''Alpha'' []) (ChessAgent_init ''Beta'' []))))) =
   Some (Json_Response 200
           (JObj [(''name'', JStr ''Alpha''), (''description'', JStr []),
                  (''gameType'', JStr ''chess'')]))
   \<and> fst (request_on 8080 \<lparr>command = ''GET'', path = ''/info'', body = Inr JNull\<rparr>
      (snd (run \<lparr>agent = 1, port = 8081\<rparr>
         (snd (run \<lparr>agent = 0, port = 8080\<rparr>
                 (two_agents (ChessAgent_init ''Alpha'' []) (ChessAgent_init ''Beta'' []))))))) =
   Some (Json_Response 200
           (JObj [(''name'', JStr ''Beta''), (''description'', JStr []),
                  (''gameType'', JStr ''chess'')]))"
  by (simp add: request_on_def run_def two_agents_def Let_def handle_one_request_def do_GET_def
        sdk_agent_def ChessAgent_init_def game_type_def send_json_def)


section \<open>The heuristic of the example bot\<close>

lemma is_strD:
  assumes "is_str v"
  shows "\<exists>s. v = Some (JStr s)"
proof (cases v)
  case None
  with assms show ?thesis by (simp add: is_str_def)
next
  case (Some j)
  with assms show ?thesis by (cases j) (simp_all add: is_str_def)
qed

lemma chess_moveD:
  assumes "chess_move m"
  obtains kvs f t s where "m = JObj kvs" "map_of kvs ''from'' = Some (JStr f)"
    "map_of kvs ''to'' = Some (JStr t)" "map_of kvs ''san'' = Some (JStr s)"
proof (cases m)
  case (JObj kvs)
  with assms have "is_str (map_of kvs ''from'')" "is_str (map_of kvs ''to'')"
    "is_str (map_of kvs ''san'')"
    by (simp_all add: chess_move_def)
  then show ?thesis using JObj that by (blast dest: is_strD)
qed (use assms in \<open>simp_all add: chess_move_def\<close>)

text \<open>What the three tests of the heuristic say about a legal move.\<close>

lemma is_capture_san:
  "map_of kvs ''san'' = Some (JStr s) \<Longrightarrow> is_capture (JObj kvs) = Inr (CHR ''x'' \<in> set s)"
  by (simp add: is_capture_def san_contains_def)

lemma is_check_san:
  "map_of kvs ''san'' = Some (JStr s) \<Longrightarrow>
     is_check (JObj kvs) = Inr (CHR ''+'' \<in> set s \<or> CHR ''#'' \<in> set s)"
  by (simp add: is_check_def san_contains_def)

lemma is_center_to:
  "map_of kvs ''to'' = Some (JStr t) \<Longrightarrow>
     is_center (JObj kvs) = Inr (t \<in> set [''e4'', ''d4'', ''e5'', ''d5'', ''c4'', ''f4''])"
  by (auto simp add: is_center_def center_squares_def)

lemma is_capture_total: "chess_move m \<Longrightarrow> is_capture m = Inr True \<or> is_capture m = Inr False"
  by (erule chess_moveD) (auto simp: is_capture_san)

lemma is_check_total: "chess_move m \<Longrightarrow> is_check m = Inr True \<or> is_check m = Inr False"
  by (erule chess_moveD) (auto simp: is_check_san)

lemma is_center_total: "chess_move m \<Longrightarrow> is_center m = Inr True \<or> is_center m = Inr False"
  by (erule chess_moveD) (auto simp: is_center_to)

text \<open>A comprehension whose condition raises on no element is a plain filter.\<close>

lemma filter_e_total:
  "list_all (\<lambda>x. p x = Inr True \<or> p x = Inr False) xs \<Longrightarrow>
     filter_e p xs = Inr (filter (\<lambda>x. p x = Inr True) xs)"
  by (induction xs) auto

lemma list_all_weaken: "list_all P xs \<Longrightarrow> (\<And>x. P x \<Longrightarrow> Q x) \<Longrightarrow> list_all Q xs"
  by (induction xs) auto

lemma choice_list:
  "xs \<noteq> [] \<Longrightarrow>
     choice self (JArr xs) =
       (Inr (xs ! (rng self 0 mod length xs)), self\<lparr>rng := next_rng (rng self)\<rparr>)"
  by (simp add: choice_def)

lemma select_move_tiers:
  assumes "ms \<noteq> []" and "list_all chess_move ms"
  shows "select_move self (JArr ms) gs =
     (let captures = filter (\<lambda>m. is_capture m = Inr True) ms;
          checks = filter (\<lambda>m. is_check m = Inr True) ms;
          center_moves = filter (\<lambda>m. is_center m = Inr True) ms;
          tier = (if captures \<noteq> [] then captures
                  else if checks \<noteq> [] then checks
                  else if move_count self < 10 \<and> center_moves \<noteq> [] then center_moves
                  else ms)
      in (Inr (tier ! (rng self 0 mod length tier)), self\<lparr>rng := next_rng (rng self)\<rparr>))"
proof -
  have cap: "filter_e is_capture ms = Inr (filter (\<lambda>m. is_capture m = Inr True) ms)"
    by (rule filter_e_total) (rule list_all_weaken [OF assms(2)], rule is_capture_total)
  have chk: "filter_e is_check ms = Inr (filter (\<lambda>m. is_check m = Inr True) ms)"
    by (rule filter_e_total) (rule list_all_weaken [OF assms(2)], rule is_check_total)
  have cen: "filter_e is_center ms = Inr (filter (\<lambda>m. is_center m = Inr True) ms)"
    by (rule filter_e_total) (rule list_all_weaken [OF assms(2)], rule is_center_total)
  show ?thesis
    using assms(1) by (simp add: select_move_def cap chk cen choice_list Let_def)
qed

lemma select_move_scenario:
  "select_move self
     (JArr [JObj [(''from'', JStr ''e2''), (''to'', JStr ''e4''), (''san'', JStr ''e4'')],
            JObj [(''from'', JStr ''d2''), (''to'', JStr ''d4''), (''san'', JStr ''dxe5'')]]) gs =
   (Inr (JObj [(''from'', JStr ''d2''), (''to'', JStr ''d4''), (''san'', JStr ''dxe5'')]),
    self\<lparr>rng := next_rng (rng self)\<rparr>)"
  by (simp add: select_move_def is_capture_def san_contains_def choice_def)

lemma make_move_scenario:
  "make_move ((SimpleChessBot_init g)\<lparr>move_count := n\<rparr>)
     (JObj [(''validMoves'',
        JArr [JObj [(''from'', JStr ''e2''), (''to'', JStr ''e4''), (''san'', JStr ''e4'')],
              JObj [(''from'', JStr ''d2''), (''to'', JStr ''d4''), (''san'', JStr ''dxe5'')]])]) =
   (Inr (JObj [(''action'', JObj [(''from'', JStr ''d2''), (''to'', JStr ''d4''),
                                  (''promotion'', JNull)]),
               (''trashTalk'', trash_talk_lines (SimpleChessBot_init g) ! (g 1 mod 8))]),
    (SimpleChessBot_init (next_rng (next_rng g)))\<lparr>move_count := n + 1\<rparr>)"
proof -
  let ?bot = "(SimpleChessBot_init g)\<lparr>move_count := n + 1\<rparr>"
  have len: "length (trash_talk_lines (SimpleChessBot_init g)) = 8"
    by (simp add: SimpleChessBot_init_def)
  then have ne: "trash_talk_lines (SimpleChessBot_init g) \<noteq> []" by auto
  let ?bot1 = "(SimpleChessBot_init g)\<lparr>move_count := n + 1,
                  rng := next_rng (rng (SimpleChessBot_init g))\<rparr>"
  have tt: "trash_talk_lines ?bot1 = trash_talk_lines (SimpleChessBot_init g)"
    by (simp add: SimpleChessBot_init_def)
  have r1: "rng ?bot1 0 = g 1"
    by (simp add: SimpleChessBot_init_def next_rng_def)
  have fin: "?bot1\<lparr>rng := next_rng (rng ?bot1)\<rparr> =
      (SimpleChessBot_init (next_rng (next_rng g)))\<lparr>move_count := n + 1\<rparr>"
    by (simp add: SimpleChessBot_init_def)
  have ch: "choice ?bot1 (JArr (trash_talk_lines (SimpleChessBot_init g))) =
            (Inr (trash_talk_lines (SimpleChessBot_init g) ! (g 1 mod 8)),
             (SimpleChessBot_init (next_rng (next_rng g)))\<lparr>move_count := n + 1\<rparr>)"
    using choice_list [OF ne, of ?bot1] by (simp only: tt r1 fin len)
  have c: "cls ((SimpleChessBot_init g)\<lparr>move_count := n\<rparr>) = SimpleChessBot"
    by (simp add: SimpleChessBot_init_def)
  have mc: "move_count ((SimpleChessBot_init g)\<lparr>move_count := n\<rparr>) = n" by simp
  show ?thesis
    by (simp add: make_move_def c SimpleChessBot_make_move_def Let_def mc
          select_move_scenario tt ch)
qed

text \<open>
  C5. Given a non-empty list of legal moves, \<^verbatim>\<open>_select_move\<close> returns an element of the
  first non-empty tier among: the moves whose \<^verbatim>\<open>san\<close> contains \<^verbatim>\<open>x\<close> (captures); the
  moves whose \<^verbatim>\<open>san\<close> contains \<^verbatim>\<open>+\<close> or \<^verbatim>\<open>#\<close> (checks and mates); while the bot's move
  counter is below 10, the moves whose \<^verbatim>\<open>to\<close> is one of e4, d4, e5, d5, c4, f4; and all
  the moves. Which element of the tier is the draw of \<^verbatim>\<open>random.choice\<close>. For the valid
  moves e2-e4 (\<^verbatim>\<open>"e4"\<close>) and d2-d4 (\<^verbatim>\<open>"dxe5"\<close>) the selection is the capture whatever the
  draws are, and so is the action of the bot's \<^verbatim>\<open>make_move\<close>.
\<close>

theorem select_move_priority:
  assumes "ms \<noteq> []" and "list_all chess_move ms"
  shows "select_move self (JArr ms) gs =
     (let captures = filter (\<lambda>m. is_capture m = Inr True) ms;
          checks = filter (\<lambda>m. is_check m = Inr True) ms;
          center_moves = filter (\<lambda>m. is_center m = Inr True) ms;
          tier = (if captures \<noteq> [] then captures
                  else if checks \<noteq> [] then checks
                  else if move_count self < 10 \<and> center_moves \<noteq> [] then center_moves
                  else ms)
      in (Inr (tier ! (rng self 0 mod length tier)), self\<lparr>rng := next_rng (rng self)\<rparr>))
   \<and> select_move self
       (JArr [JObj [(''from'', JStr ''e2''), (''to'', JStr ''e4''), (''san'', JStr ''e4'')],
              JObj [(''from'', JStr ''d2''), (''to'', JStr ''d4''), (''san'', JStr ''dxe5'')]])
       gs =
     (Inr (JObj [(''from'', JStr ''d2''), (''to'', JStr ''d4''), (''san'', JStr ''dxe5'')]),
      self\<lparr>rng := next_rng (rng self)\<rparr>)
   \<and> make_move ((SimpleChessBot_init g)\<lparr>move_count := n\<rparr>)
       (JObj [(''validMoves'',
          JArr [JObj [(''from'', JStr ''e2''), (''to'', JStr ''e4''), (''san'', JStr ''e4'')],
                JObj [(''from'', JStr ''d2''), (''to'', JStr ''d4''),
                      (''san'', JStr ''dxe5'')]])]) =
     (Inr (JObj [(''action'', JObj [(''from'', JStr ''d2''), (''to'', JStr ''d4''),
                                    (''promotion'', JNull)]),
                 (''trashTalk'', trash_talk_lines (SimpleChessBot_init g) ! (g 1 mod 8))]),
      (SimpleChessBot_init (next_rng (next_rng g)))\<lparr>move_count := n + 1\<rparr>)"
  using select_move_tiers [OF assms] select_move_scenario make_move_scenario by simp

theorem select_move_priority_witness:
  "select_move ((SimpleChessBot_init (const_rng 1))\<lparr>move_count := 1\<rparr>)
     (JArr [JObj [(''from'', JStr ''e2''), (''to'', JStr ''e4''), (''san'', JStr ''e4'')],
            JObj [(''from'', JStr ''g1''), (''to'', JStr ''f3''), (''san'', JStr ''Nf3+'')]])
     (JObj []) =
   (Inr (JObj [(''from'', JStr ''g1''), (''to'', JStr ''f3''), (''san'', JStr ''Nf3+'')]),
    (SimpleChessBot_init (const_rng 1))\<lparr>move_count := 1, rng := next_rng (const_rng 1)\<rparr>)
   \<and> select_move ((SimpleChessBot_init (const_rng 1))\<lparr>move_count := 1\<rparr>)
     (JArr [JObj [(''from'', JStr ''a2''), (''to'', JStr ''a3''), (''san'', JStr ''a3'')],
            JObj [(''from'', JStr ''b2''), (''to'', JStr ''b3''), (''san'', JStr ''b3'')],
            JObj [(''from'', JStr ''d2''), (''to'', JStr ''d4''), (''san'', JStr ''d4'')]])
     (JObj []) =
   (Inr (JObj [(''from'', JStr ''d2''), (''to'', JStr ''d4''), (''san'', JStr ''d4'')]),
    (SimpleChessBot_init (const_rng 1))\<lparr>move_count := 1, rng := next_rng (const_rng 1)\<rparr>)
   \<and> select_move ((SimpleChessBot_init (const_rng 1))\<lparr>move_count := 10\<rparr>)
     (JArr [JObj [(''from'', JStr ''a2''), (''to'', JStr ''a3''), (''san'', JStr ''a3'')],
            JObj [(''from'', JStr ''b2''), (''to'', JStr ''b3''), (''san'', JStr ''b3'')],
            JObj [(''from'', JStr ''d2''), (''to'', JStr ''d4''), (''san'', JStr ''d4'')]])
     (JObj []) =
   (Inr (JObj [(''from'', JStr ''b2''), (''to'', JStr ''b3''), (''san'', JStr ''b3'')]),
    (SimpleChessBot_init (const_rng 1))\<lparr>move_count := 10, rng := next_rng (const_rng 1)\<rparr>)"
proof -
  let ?chk = "[JObj [(''from'', JStr ''e2''), (''to'', JStr ''e4''), (''san'', JStr ''e4'')],
               JObj [(''from'', JStr ''g1''), (''to'', JStr ''f3''), (''san'', JStr ''Nf3+'')]]"
  let ?quiet = "[JObj [(''from'', JStr ''a2''), (''to'', JStr ''a3''), (''san'', JStr ''a3'')],
                 JObj [(''from'', JStr ''b2''), (''to'', JStr ''b3''), (''san'', JStr ''b3'')],
                 JObj [(''from'', JStr ''d2''), (''to'', JStr ''d4''), (''san'', JStr ''d4'')]]"
  have n1: "?chk \<noteq> []" and n2: "?quiet \<noteq> []" by simp_all
  have l1: "list_all chess_move ?chk" by (simp add: chess_move_def is_str_def)
  have l2: "list_all chess_move ?quiet" by (simp add: chess_move_def is_str_def)
  have r: "rng ((SimpleChessBot_init (const_rng 1))\<lparr>move_count := k\<rparr>) 0 = 1" for k
    by (simp add: SimpleChessBot_init_def const_rng_def)
  show ?thesis
    using select_move_priority
            [OF n1 l1, of "(SimpleChessBot_init (const_rng 1))\<lparr>move_count := 1\<rparr>" "JObj []"]
          select_move_priority
            [OF n2 l2, of "(SimpleChessBot_init (const_rng 1))\<lparr>move_count := 1\<rparr>" "JObj []"]
          select_move_priority
            [OF n2 l2, of "(SimpleChessBot_init (const_rng 1))\<lparr>move_count := 10\<rparr>" "JObj []"]
    by (simp add: r is_capture_def is_check_def is_center_def san_contains_def
          center_squares_def Let_def)
      (simp add: SimpleChessBot_init_def const_rng_def)
qed


section \<open>The engine-backed bot when the engine fails\<close>

text \<open>The ways \<^verbatim>\<open>_get_stockfish_move\<close> raises: the engine call raises, or no line parses.\<close>

lemma get_stockfish_move_engine_raises:
  "eng fen d = Inl e \<Longrightarrow> get_stockfish_move (StockfishBot_init d g eng) fen = Inl e"
  by (simp add: get_stockfish_move_def StockfishBot_init_def)

lemma parse_bestmove_no_line:
  "list_all (\<lambda>l. take 8 l \<noteq> ''bestmove'') ls \<Longrightarrow>
     parse_bestmove ls = Inl (Exc ValueError ''Could not parse Stockfish output'')"
  by (induction ls) auto

lemma get_stockfish_move_no_bestmove:
  "get_stockfish_move (StockfishBot_init d g engine_no_bestmove) fen =
     Inl (Exc ValueError ''Could not parse Stockfish output'')"
  by (simp add: get_stockfish_move_def StockfishBot_init_def engine_no_bestmove_def)

text \<open>
  The words of a line are split at any whitespace character, and the slices of the move
  count characters: a no-break space (U+00A0) after \<^verbatim>\<open>bestmove\<close> separates the move,
  and a move that starts with a two-byte character keeps it whole in \<^verbatim>\<open>from\<close>.
\<close>

lemma parse_bestmove_no_break_space:
  "parse_bestmove [''bestmove'' @ [CHR 0xC2, CHR 0xA0] @ ''e7e8q''] =
     Inr (JObj [(''from'', JStr ''e7''), (''to'', JStr ''e8''), (''promotion'', JStr ''q'')])"
  by (simp add: is_space_def whitespace_def is_continuation_def)

lemma parse_bestmove_counts_characters:
  "parse_bestmove [''bestmove '' @ [CHR 0xC3, CHR 0xA9] @ ''2e4''] =
     Inr (JObj [(''from'', JStr ([CHR 0xC3, CHR 0xA9] @ ''2'')), (''to'', JStr ''e4''),
                (''promotion'', JNull)])"
  by (simp add: is_space_def whitespace_def is_continuation_def)

text \<open>
  A \<^verbatim>\<open>bestmove\<close> line of two words or more is parsed as it stands, whatever the second
  word is: \<^verbatim>\<open>_get_stockfish_move\<close> does not raise on it.
\<close>

lemma parse_bestmove_none:
  "parse_bestmove [''readyok'', ''bestmove (none)''] =
     Inr (JObj [(''from'', JStr ''(n''), (''to'', JStr ''on''), (''promotion'', JStr ''e'')])"
  by (simp add: is_space_def whitespace_def is_continuation_def)

text \<open>
  What holds of the fallback. When \<^verbatim>\<open>_get_stockfish_move\<close> raises, whatever the
  exception, and the valid move \<^verbatim>\<open>random.choice\<close> draws is a dict with \<^verbatim>\<open>from\<close> and
  \<^verbatim>\<open>to\<close>, \<^verbatim>\<open>make_move\<close> raises nothing: it returns an action made of the \<^verbatim>\<open>from\<close> and
  \<^verbatim>\<open>to\<close> of that move, and of nothing else, with one of the bot's non-empty lines.
\<close>

lemma fallback_when_engine_raises:
  assumes "map_of gs ''validMoves'' = Some (JArr ms)"
      and "ms \<noteq> []"
      and "ms ! (g 0 mod length ms) = JObj kvs"
      and "map_of kvs ''from'' = Some f"
      and "map_of kvs ''to'' = Some t"
      and "get_stockfish_move (StockfishBot_init d g eng)
             (case map_of gs ''fen'' of None \<Rightarrow> JStr [] | Some v \<Rightarrow> v) = Inl e"
  shows "\<exists>trash.
           JStr trash \<in> set (winning_trash_talk (StockfishBot_init d g eng))
         \<and> trash \<noteq> []
         \<and> make_move (StockfishBot_init d g eng) (JObj gs) =
             (Inr (JObj [(''action'', JObj [(''from'', f), (''to'', t)]),
                         (''trashTalk'', JStr trash)]),
              StockfishBot_init d (next_rng (next_rng g)) eng)"
proof -
  let ?bot = "StockfishBot_init d g eng"
  let ?w = "winning_trash_talk ?bot"
  have cls: "cls ?bot = StockfishBot" by (simp add: StockfishBot_init_def)
  have fb: "fallback_move ?bot (JArr ms) =
     (Inr (JObj [(''from'', f), (''to'', t)]), StockfishBot_init d (next_rng g) eng)"
    using assms(2-5) by (simp add: fallback_move_def choice_def StockfishBot_init_def)
  have "next_rng g 0 mod 3 < 3" by simp
  then consider "next_rng g 0 mod 3 = 0" | "next_rng g 0 mod 3 = 1" | "next_rng g 0 mod 3 = 2"
    by linarith
  then obtain trash where tr: "?w ! (next_rng g 0 mod 3) = JStr trash" "trash \<noteq> []"
    "JStr trash \<in> set ?w"
    by cases (auto simp: StockfishBot_init_def mojibake_def quoted_def)
  have ch: "choice (StockfishBot_init d (next_rng g) eng) (JArr ?w) =
      (Inr (JStr trash), StockfishBot_init d (next_rng (next_rng g)) eng)"
    using tr(1) by (simp add: choice_def StockfishBot_init_def)
  have wt: "winning_trash_talk (StockfishBot_init d (next_rng g) eng) = ?w"
    by (simp add: StockfishBot_init_def)
  have "make_move ?bot (JObj gs) =
          (Inr (JObj [(''action'', JObj [(''from'', f), (''to'', t)]),
                      (''trashTalk'', JStr trash)]),
           StockfishBot_init d (next_rng (next_rng g)) eng)"
    using assms(1,2,6) by (simp add: make_move_def cls StockfishBot_make_move_def fb wt ch)
  with tr show ?thesis by auto
qed

text \<open>
  C6. The engine-backed bot does not always answer a failing engine with a valid action.
  First, the only valid move is the promotion e7-e8 with \<^verbatim>\<open>promotion\<close> \<^verbatim>\<open>q\<close> and the
  engine times out: the fallback returns the action \<^verbatim>\<open>{"from": "e7", "to": "e8"}\<close>, which
  has no \<^verbatim>\<open>promotion\<close> key and is none of the valid moves. Second, the engine answers
  \<^verbatim>\<open>bestmove (none)\<close>: nothing raises, so there is no fallback, and the action is
  \<^verbatim>\<open>{"from": "(n", "to": "on", "promotion": "e"}\<close>, cut out of the word \<^verbatim>\<open>(none)\<close>,
  while the one valid move is e2-e4.
\<close>

theorem stockfish_bot_returns_invalid_action:
  "fst (make_move (StockfishBot_init 15 (const_rng 0) engine_timeout)
     (JObj [(''fen'', JStr ''8/4P3/8/8/8/8/8/K6k w - - 0 1''),
            (''validMoves'',
               JArr [JObj [(''from'', JStr ''e7''), (''to'', JStr ''e8''),
                           (''promotion'', JStr ''q''), (''san'', JStr ''e8=Q'')]])])) =
   Inr (JObj [(''action'', JObj [(''from'', JStr ''e7''), (''to'', JStr ''e8'')]),
              (''trashTalk'', JStr (mojibake @ '' Calculated. Precise. Inevitable.''))])
   \<and> \<not> has_key (JObj [(''from'', JStr ''e7''), (''to'', JStr ''e8'')]) ''promotion''
   \<and> fst (make_move (StockfishBot_init 15 (const_rng 0) engine_bestmove_none)
     (JObj [(''validMoves'',
               JArr [JObj [(''from'', JStr ''e2''), (''to'', JStr ''e4''),
                           (''san'', JStr ''e4'')]])])) =
   Inr (JObj [(''action'', JObj [(''from'', JStr ''(n''), (''to'', JStr ''on''),
                                 (''promotion'', JStr ''e'')]),
              (''trashTalk'', JStr (mojibake @ '' Calculated. Precise. Inevitable.''))])"
  by (simp add: make_move_def StockfishBot_make_move_def StockfishBot_init_def
        engine_timeout_def engine_bestmove_none_def get_stockfish_move_def fallback_move_def
        choice_def const_rng_def next_rng_def has_key_def is_space_def whitespace_def
        is_continuation_def)

end
